theory Spec2Isabelle
  imports Main "HOL-Library.Word"
begin

section \<open>JavaScript strings and buffers\<close>

text \<open>
  A JavaScript string is a sequence of UTF-16 code units, and \<open>length\<close> counts code
  units. A \<open>Buffer\<close> is a sequence of bytes. String literals of the source are ASCII and
  are embedded with \<open>js\<close>.
\<close>

type_synonym byte = "8 word"
type_synonym unit16 = "16 word"
type_synonym jsstring = "unit16 list"

definition js :: "string \<Rightarrow> jsstring" where
  "js s = map of_char s"

definition is_high_surrogate :: "unit16 \<Rightarrow> bool" where
  "is_high_surrogate u = (0xD800 \<le> u \<and> u \<le> 0xDBFF)"

definition is_low_surrogate :: "unit16 \<Rightarrow> bool" where
  "is_low_surrogate u = (0xDC00 \<le> u \<and> u \<le> 0xDFFF)"

definition utf8_code_point :: "nat \<Rightarrow> byte list" where
  "utf8_code_point cp =
     (if cp < 0x80 then [of_nat cp]
      else if cp < 0x800 then [of_nat (0xC0 + cp div 64), of_nat (0x80 + cp mod 64)]
      else if cp < 0x10000 then
        [of_nat (0xE0 + cp div 4096), of_nat (0x80 + (cp div 64) mod 64),
         of_nat (0x80 + cp mod 64)]
      else
        [of_nat (0xF0 + cp div 262144), of_nat (0x80 + (cp div 4096) mod 64),
         of_nat (0x80 + (cp div 64) mod 64), of_nat (0x80 + cp mod 64)])"

definition utf8_unit :: "unit16 \<Rightarrow> byte list" where
  \<comment> \<open>a code unit on its own; an unpaired surrogate is written as U+FFFD\<close>
  "utf8_unit u =
     (if is_high_surrogate u \<or> is_low_surrogate u then [0xEF, 0xBF, 0xBD]
      else utf8_code_point (unat u))"

fun utf8_chars :: "jsstring \<Rightarrow> byte list list" where
  \<comment> \<open>the UTF-8 bytes of each character of the string, in order\<close>
  "utf8_chars (u # v # rest) =
     (if is_high_surrogate u \<and> is_low_surrogate v
      then utf8_code_point (0x10000 + (unat u - 0xD800) * 0x400 + (unat v - 0xDC00))
             # utf8_chars rest
      else utf8_unit u # utf8_chars (v # rest))"
| "utf8_chars [u] = [utf8_unit u]"
| "utf8_chars [] = []"

definition Buffer_from :: "jsstring \<Rightarrow> byte list" where
  \<comment> \<open>\<open>Buffer.from(str)\<close>: the UTF-8 encoding of the whole string\<close>
  "Buffer_from s = concat (utf8_chars s)"

fun fit_chars :: "nat \<Rightarrow> byte list list \<Rightarrow> byte list" where
  \<comment> \<open>the characters that fit into \<open>room\<close> bytes; a character is never written in part\<close>
  "fit_chars room [] = []"
| "fit_chars room (c # cs) =
     (if length c \<le> room then c @ fit_chars (room - length c) cs else [])"

definition Buffer_write :: "byte list \<Rightarrow> jsstring \<Rightarrow> nat \<Rightarrow> byte list" where
  \<comment> \<open>\<open>buf.write(s, offset, "utf-8")\<close> for \<open>offset \<le> buf.length\<close>\<close>
  "Buffer_write buf s offset =
     (let written = fit_chars (length buf - offset) (utf8_chars s)
      in take offset buf @ written @ drop (offset + length written) buf)"

subsection \<open>The field encoder\<close>

definition textPayload :: "jsstring \<Rightarrow> byte list" where
  "textPayload txt =
     (let payload = replicate (1 + length txt) 0;
          payload = payload[0 := of_nat (length txt)]
      in Buffer_write payload txt 1)"


definition is_ascii :: "jsstring \<Rightarrow> bool" where
  "is_ascii s = list_all (\<lambda>u. u < 0x80) s"

section \<open>Values and the runtime\<close>

text \<open>
  The numbers of this program (chain identifiers, the creation time, the clock) are
  integers, and \<open>toString\<close> prints an integer in decimal, as the language does below
  \<open>10\<^sup>2\<^sup>1\<close>; fractions, infinities and \<open>NaN\<close> are not values of this model. The sender
  chain identifier is declared a number and is also given as text (\<open>"0"\<close>) by callers, as
  the amount is for \<open>convertDecimal\<close>: such a value is a \<open>jsval\<close>. \<open>undefined\<close> is \<open>None\<close>.
\<close>

datatype jsval = Num int | Str jsstring

definition digit_unit :: "nat \<Rightarrow> unit16" where
  "digit_unit d = of_nat (48 + d)"

function nat_toString :: "nat \<Rightarrow> jsstring" where
  "nat_toString n =
     (if n < 10 then [digit_unit n] else nat_toString (n div 10) @ [digit_unit (n mod 10)])"
  by pat_completeness auto
termination
  by (relation "measure id") auto

declare nat_toString.simps [simp del]

definition Number_toString :: "int \<Rightarrow> jsstring" where
  "Number_toString n =
     (if n < 0 then js ''-'' @ nat_toString (nat (- n)) else nat_toString (nat n))"

fun toString :: "jsval \<Rightarrow> jsstring" where
  "toString (Num n) = Number_toString n"
| "toString (Str s) = s"

fun or_empty_toString :: "jsval option \<Rightarrow> jsstring" where
  \<comment> \<open>\<open>(value || "").toString()\<close>: \<open>undefined\<close>, \<open>0\<close> and \<open>""\<close> are falsy\<close>
  "or_empty_toString None = []"
| "or_empty_toString (Some (Num n)) = (if n = 0 then [] else Number_toString n)"
| "or_empty_toString (Some (Str s)) = s"

fun concat_operand :: "jsstring option \<Rightarrow> jsstring" where
  \<comment> \<open>a string operand of \<open>+\<close>: \<open>undefined\<close> is written out as text\<close>
  "concat_operand None = js ''undefined''"
| "concat_operand (Some s) = s"

text \<open>
  What is thrown: a \<open>TypeError\<close> made by the program, the \<open>TypeError\<close> of the language for
  a method call on \<open>undefined\<close>, a failed read of a response, and whatever the transport
  collaborator throws (a status code).
\<close>

datatype thrown =
    TypeError jsstring
  | UndefinedDereference
  | ReadBeyondBuffer
  | TransportError nat
  | ResponseError thrown

text \<open>
  The conversion of a string to a number, as far as the program observes it: not a
  number, an integer, or some other number.
\<close>

datatype numclass = NaN | Integral int | NonIntegral

datatype request =
    SignSendChunk nat nat nat "byte list option"
  | TransportSend nat nat nat nat "byte list"

type_synonym reply = "thrown + byte list"

text \<open>
  The parts of the language runtime and of the libraries that the program calls and that
  are not part of it are parameters: the conversion of strings to numbers, the decoders and
  the UTF-8 decoder of \<open>Buffer\<close>, the digest of \<open>blakejs\<close>, the clock, and of the base class
  \<open>serializePath\<close>, \<open>prepareChunks\<close> and \<open>processErrorResponse\<close>. The collaborator that
  answers \<open>signSendChunk\<close> and \<open>transport.send\<close> is a state machine \<open>collaborator\<close> over a
  state \<open>'d\<close>; its answer is the response payload, or what it throws.
\<close>

record 'd runtime =
  StringToNumber :: "jsstring \<Rightarrow> numclass"
  Buffer_from_hex :: "jsstring \<Rightarrow> byte list"
  Buffer_from_base64 :: "jsstring \<Rightarrow> byte list"
  Buffer_toString :: "byte list \<Rightarrow> jsstring"
  blake2b :: "nat \<Rightarrow> byte list \<Rightarrow> byte list"
  getTime :: int
  serializePath :: "jsstring \<Rightarrow> byte list"
  prepareChunks :: "jsstring \<Rightarrow> byte list \<Rightarrow> byte list list"
  processErrorResponse :: "thrown \<Rightarrow> thrown"
  collaborator :: "request \<Rightarrow> 'd \<Rightarrow> reply \<times> 'd"

section \<open>Transfer parameters and their validation\<close>

text \<open>
  One record for \<open>TransferTxParams\<close> and \<open>TransferCrossChainTxParams\<close>: an object of the
  first interface is one whose \<open>recipient_chainId\<close> is \<open>undefined\<close>.
\<close>

record TransferCrossChainTxParams =
  path :: "jsstring option"
  namespace :: "jsstring option"
  module :: "jsstring option"
  recipient :: jsstring
  amount :: jsstring
  chainId :: jsval
  network :: jsstring
  gasPrice :: "jsstring option"
  gasLimit :: "jsstring option"
  creationTime :: "int option"
  ttl :: "jsstring option"
  nonce :: "jsstring option"
  recipient_chainId :: "int option"

definition maxLengths :: "(string \<times> nat) list" where
  "maxLengths =
     [(''recipient'', 64), (''namespace'', 16), (''module'', 32), (''recipient_chainId'', 2),
      (''network'', 20), (''amount'', 32), (''gasPrice'', 20), (''gasLimit'', 10),
      (''creationTime'', 12), (''chainId'', 2), (''nonce'', 32), (''ttl'', 20)]"

definition property :: "TransferCrossChainTxParams \<Rightarrow> string \<Rightarrow> jsval option" where
  \<comment> \<open>\<open>params[key]\<close>\<close>
  "property params key =
     (if key = ''path'' then map_option Str (path params)
      else if key = ''namespace'' then map_option Str (namespace params)
      else if key = ''module'' then map_option Str (module params)
      else if key = ''recipient'' then Some (Str (recipient params))
      else if key = ''amount'' then Some (Str (amount params))
      else if key = ''chainId'' then Some (chainId params)
      else if key = ''network'' then Some (Str (network params))
      else if key = ''gasPrice'' then map_option Str (gasPrice params)
      else if key = ''gasLimit'' then map_option Str (gasLimit params)
      else if key = ''creationTime'' then map_option Num (creationTime params)
      else if key = ''ttl'' then map_option Str (ttl params)
      else if key = ''nonce'' then map_option Str (nonce params)
      else if key = ''recipient_chainId'' then map_option Num (recipient_chainId params)
      else None)"

definition startsWith :: "jsstring \<Rightarrow> jsstring \<Rightarrow> bool" where
  "startsWith s p = (take (length p) s = p)"

definition strip_k :: "jsstring \<Rightarrow> jsstring" where
  \<comment> \<open>\<open>r.startsWith("k:") ? r.substring(2) : r\<close>\<close>
  "strip_k r = (if startsWith r (js ''k:'') then drop 2 r else r)"

definition is_hex_digit :: "unit16 \<Rightarrow> bool" where
  \<comment> \<open>the character class \<open>[0-9A-Fa-f]\<close>\<close>
  "is_hex_digit u =
     ((0x30 \<le> u \<and> u \<le> 0x39) \<or> (0x41 \<le> u \<and> u \<le> 0x46) \<or> (0x61 \<le> u \<and> u \<le> 0x66))"

fun match_hex_run :: "nat \<Rightarrow> jsstring \<Rightarrow> bool" where
  \<comment> \<open>\<open>s.match(/[0-9A-Fa-f]{n}/g)\<close> is not \<open>null\<close>: a run of \<open>n\<close> hex digits starts somewhere\<close>
  "match_hex_run n [] = (n = 0)"
| "match_hex_run n (u # s) =
     ((n \<le> length (u # s) \<and> list_all is_hex_digit (take n (u # s))) \<or> match_hex_run n s)"

fun isNaN' :: "'d runtime \<Rightarrow> jsval option \<Rightarrow> bool" where
  "isNaN' rt None = False"
| "isNaN' rt (Some (Num n)) = False"
| "isNaN' rt (Some (Str s)) = (StringToNumber rt s = NaN)"

fun check_maxLengths ::
  "TransferCrossChainTxParams \<Rightarrow> jsstring \<Rightarrow> (string \<times> nat) list \<Rightarrow> thrown + unit" where
  \<comment> \<open>the loop over \<open>Object.entries(maxLengths)\<close>\<close>
  "check_maxLengths params recipient' [] = Inr ()"
| "check_maxLengths params recipient' ((key, maxLength) # entries) =
     (let val = (if key = ''recipient'' then Some (Str recipient') else property params key);
          strValue = or_empty_toString val
      in if key = ''recipient'' \<and> length strValue \<noteq> maxLength then
           Inl (TypeError (js key @ js '' should be exactly '' @ nat_toString maxLength
                             @ js '' characters long''))
         else if length strValue > maxLength then
           Inl (TypeError (js key @ js '' should be '' @ nat_toString maxLength
                             @ js '' characters or less''))
         else check_maxLengths params recipient' entries)"

definition checkTransferTxParamsSanity ::
  "'d runtime \<Rightarrow> TransferCrossChainTxParams \<Rightarrow> thrown + unit" where
  \<open>checkTransferTxParamsSanity rt params =
     (let recipient' = strip_k (recipient params) in
      if \<not> match_hex_run 64 recipient' then
        Inl (TypeError (js ''Recipient should be a hex encoded pubkey or 'k:' address''))
      else
        let namespace' = (case namespace params of None \<Rightarrow> [] | Some n \<Rightarrow> n);
            module' = (case module params of None \<Rightarrow> [] | Some m \<Rightarrow> m)
        in
        if namespace' \<noteq> [] \<and> module' = [] then
          Inl (TypeError (js ''Along with 'namespace' 'module' need to be specified''))
        else if isNaN' rt (Some (Str (amount params))) then
          Inl (TypeError (js ''amount is non a number''))
        else if isNaN' rt (map_option Str (gasPrice params)) then
          Inl (TypeError (js ''gasPrice is non a number''))
        else if isNaN' rt (map_option Str (gasLimit params)) then
          Inl (TypeError (js ''gasLimit is non a number''))
        else if isNaN' rt (map_option Num (creationTime params)) then
          Inl (TypeError (js ''creationTime is non a number''))
        else if isNaN' rt (map_option Str (ttl params)) then
          Inl (TypeError (js ''ttl is non a number''))
        else check_maxLengths params recipient' maxLengths)\<close>

text \<open>The recipients that the specification accepts: exactly 64 hexadecimal characters.\<close>

definition is_hex64 :: "jsstring \<Rightarrow> bool" where
  "is_hex64 r = (length r = 64 \<and> list_all is_hex_digit r)"

definition convertDecimal :: "'d runtime \<Rightarrow> jsval \<Rightarrow> jsstring" where
  "convertDecimal rt decimal =
     (let decimalStr = toString decimal in
      if 0x2E \<in> set decimalStr then decimalStr
      else
        let numValue = StringToNumber rt decimalStr in
        (case numValue of Integral n \<Rightarrow> decimalStr @ js ''.0'' | _ \<Rightarrow> decimalStr))"

section \<open>The command document\<close>

datatype TransferTxType = TRANSFER | TRANSFER_CREATE | TRANSFER_CROSS_CHAIN

fun tx_number :: "TransferTxType \<Rightarrow> nat" where
  "tx_number TRANSFER = 0"
| "tx_number TRANSFER_CREATE = 1"
| "tx_number TRANSFER_CROSS_CHAIN = 2"

definition bq :: jsstring where
  \<comment> \<open>a backslash and a double quote: an escaped quote inside the code of the command\<close>
  "bq = [0x5C, 0x22]"

definition buildTransferJson ::
  "TransferCrossChainTxParams \<Rightarrow> nat \<Rightarrow> jsstring \<Rightarrow> int \<Rightarrow> thrown + jsstring" where
  \<open>buildTransferJson params txType pubkey' creationTime' =
     (let recipient' = strip_k (recipient params);
          namespace' = (case namespace params of None \<Rightarrow> [] | Some n \<Rightarrow> n);
          module' = (case module params of None \<Rightarrow> [] | Some m \<Rightarrow> m);
          cmd0 = js ''{"networkId":"'' @ network params @ js ''"'';
          meta =
            js '',"meta":{"creationTime":'' @ Number_toString creationTime'
            @ js '',"ttl":'' @ concat_operand (ttl params)
            @ js '',"gasLimit":'' @ concat_operand (gasLimit params)
            @ js '',"chainId":"'' @ toString (chainId params) @ js ''"''
            @ js '',"gasPrice":'' @ concat_operand (gasPrice params)
            @ js '',"sender":"k:'' @ pubkey'
            @ js ''"},"nonce":"'' @ concat_operand (nonce params) @ js ''"}''
      in
      if txType = 0 then
        Inr (cmd0
          @ js '',"payload":{"exec":{"data":{},"code":"''
          @ (if namespace' = [] then js ''(coin.transfer''
             else js ''('' @ namespace' @ js ''.'' @ module' @ js ''.transfer'')
          @ js '' '' @ bq @ js ''k:'' @ pubkey' @ bq
          @ js '' '' @ bq @ js ''k:'' @ recipient' @ bq
          @ js '' '' @ amount params @ js '')"}}''
          @ js '',"signers":[{"pubKey":"'' @ pubkey' @ js ''"''
          @ js '',"clist":[{"args":["k:'' @ pubkey' @ js ''","k:'' @ recipient' @ js ''",''
          @ amount params @ js '']''
          @ (if namespace' = [] then
               js '',"name":"coin.TRANSFER"},{"args":[],"name":"coin.GAS"}]}]''
             else
               js '',"name":"'' @ namespace' @ js ''.'' @ module'
               @ js ''.TRANSFER"},{"args":[],"name":"coin.GAS"}]}]'')
          @ meta)
      else if txType = 1 then
        Inr (cmd0
          @ js '',"payload":{"exec":{"data":{''
          @ js ''"ks":{"pred":"keys-all","keys":["'' @ recipient' @ js ''"]}''
          @ js ''},"code":"''
          @ (if namespace' = [] then js ''(coin.transfer-create''
             else js ''('' @ namespace' @ js ''.'' @ module' @ js ''.transfer-create'')
          @ js '' '' @ bq @ js ''k:'' @ pubkey' @ bq
          @ js '' '' @ bq @ js ''k:'' @ recipient' @ bq
          @ js '' (read-keyset '' @ bq @ js ''ks'' @ bq @ js '')''
          @ js '' '' @ amount params @ js '')"}}''
          @ js '',"signers":[{"pubKey":"'' @ pubkey' @ js ''"''
          @ js '',"clist":[{"args":["k:'' @ pubkey' @ js ''","k:'' @ recipient' @ js ''",''
          @ amount params @ js '']''
          @ (if namespace' = [] then
               js '',"name":"coin.TRANSFER"},{"args":[],"name":"coin.GAS"}]}]''
             else
               js '',"name":"'' @ namespace' @ js ''.'' @ module'
               @ js ''.TRANSFER"},{"args":[],"name":"coin.GAS"}]}]'')
          @ meta)
      else
        (case recipient_chainId params of
           None \<Rightarrow> Inl UndefinedDereference
         | Some rc \<Rightarrow>
             Inr (cmd0
               @ js '',"payload":{"exec":{"data":{''
               @ js ''"ks":{"pred":"keys-all","keys":["'' @ recipient' @ js ''"]}''
               @ js ''},"code":"''
               @ (if namespace' = [] then js ''(coin.transfer-crosschain''
                  else js ''('' @ namespace' @ js ''.'' @ module' @ js ''.transfer-crosschain'')
               @ js '' '' @ bq @ js ''k:'' @ pubkey' @ bq
               @ js '' '' @ bq @ js ''k:'' @ recipient' @ bq
               @ js '' (read-keyset '' @ bq @ js ''ks'' @ bq @ js '')''
               @ js '' '' @ bq @ Number_toString rc @ bq
               @ js '' '' @ amount params @ js '')"}}''
               @ js '',"signers":[{"pubKey":"'' @ pubkey' @ js ''"''
               @ js '',"clist":[{"args":["k:'' @ pubkey' @ js ''","k:'' @ recipient'
               @ js ''",'' @ amount params @ js '',"'' @ Number_toString rc @ js ''"]''
               @ (if namespace' = [] then
                    js '',"name":"coin.TRANSFER_XCHAIN"},{"args":[],"name":"coin.GAS"}]}]''
                  else
                    js '',"name":"'' @ namespace' @ js ''.'' @ module'
                    @ js ''.TRANSFER_XCHAIN"},{"args":[],"name":"coin.GAS"}]}]'')
               @ meta)))\<close>

section \<open>The digest identifier\<close>

definition base64_alphabet :: jsstring where
  "base64_alphabet = js ''ABCDEFGHIJKLMNOPQRSTUVWXYZabcdefghijklmnopqrstuvwxyz0123456789+/''"

definition base64_char :: "nat \<Rightarrow> unit16" where
  "base64_char n = base64_alphabet ! n"

fun Buffer_toString_base64 :: "byte list \<Rightarrow> jsstring" where
  \<comment> \<open>\<open>buf.toString("base64")\<close>: the standard alphabet, padded with \<open>=\<close>\<close>
  "Buffer_toString_base64 (a # b # c # rest) =
     [base64_char (unat a div 4), base64_char ((unat a mod 4) * 16 + unat b div 16),
      base64_char ((unat b mod 16) * 4 + unat c div 64), base64_char (unat c mod 64)]
     @ Buffer_toString_base64 rest"
| "Buffer_toString_base64 [a, b] =
     [base64_char (unat a div 4), base64_char ((unat a mod 4) * 16 + unat b div 16),
      base64_char ((unat b mod 16) * 4), 0x3D]"
| "Buffer_toString_base64 [a] =
     [base64_char (unat a div 4), base64_char ((unat a mod 4) * 16), 0x3D, 0x3D]"
| "Buffer_toString_base64 [] = []"

definition replace_all :: "unit16 \<Rightarrow> jsstring \<Rightarrow> jsstring \<Rightarrow> jsstring" where
  \<comment> \<open>\<open>s.replace(/c/g, r)\<close> for a single character \<open>c\<close>\<close>
  "replace_all c r s = concat (map (\<lambda>u. if u = c then r else [u]) s)"

definition hash_identifier :: "byte list \<Rightarrow> jsstring" where
  "hash_identifier hash_bytes =
     replace_all 0x3D []
       (replace_all 0x2F (js ''_'')
          (replace_all 0x2B (js ''-'') (Buffer_toString_base64 hash_bytes)))"

text \<open>The same encoding in the words of the specification: base64 over the URL-safe
  alphabet, with no padding.\<close>

definition base64url_alphabet :: jsstring where
  "base64url_alphabet = js ''ABCDEFGHIJKLMNOPQRSTUVWXYZabcdefghijklmnopqrstuvwxyz0123456789-_''"

definition base64url_char :: "nat \<Rightarrow> unit16" where
  "base64url_char n = base64url_alphabet ! n"

fun base64url_nopad :: "byte list \<Rightarrow> jsstring" where
  "base64url_nopad (a # b # c # rest) =
     [base64url_char (unat a div 4), base64url_char ((unat a mod 4) * 16 + unat b div 16),
      base64url_char ((unat b mod 16) * 4 + unat c div 64), base64url_char (unat c mod 64)]
     @ base64url_nopad rest"
| "base64url_nopad [a, b] =
     [base64url_char (unat a div 4), base64url_char ((unat a mod 4) * 16 + unat b div 16),
      base64url_char ((unat b mod 16) * 4)]"
| "base64url_nopad [a] =
     [base64url_char (unat a div 4), base64url_char ((unat a mod 4) * 16)]"
| "base64url_nopad [] = []"

definition hex_char :: "nat \<Rightarrow> unit16" where
  "hex_char n = js ''0123456789abcdef'' ! n"

definition Buffer_toString_hex :: "byte list \<Rightarrow> jsstring" where
  \<comment> \<open>\<open>buf.toString("hex")\<close>\<close>
  "Buffer_toString_hex bs =
     concat (map (\<lambda>b. [hex_char (unat b div 16), hex_char (unat b mod 16)]) bs)"

section \<open>The signing operations\<close>

text \<open>
  The world of a call: the objects of the caller, by address; the state of the
  collaborator; and the exchanges with the collaborator so far, oldest first.
\<close>

record 'd world =
  heap :: "nat \<Rightarrow> TransferCrossChainTxParams"
  device :: 'd
  exchanges :: "(request \<times> reply) list"

record ResponseAddress =
  pubkey :: "byte list"
  address :: jsstring

record ResponseSign =
  signature :: "byte list"

record ResponseSignTransfer = ResponseSign +
  cmd :: jsstring
  hash :: jsstring

definition CLA :: nat where "CLA = 0x00"
definition INS_GET_ADDR :: nat where "INS_GET_ADDR = 0x21"
definition INS_SIGN :: nat where "INS_SIGN = 0x22"
definition INS_SIGN_HASH :: nat where "INS_SIGN_HASH = 0x23"
definition INS_SIGN_TRANSFER_TX :: nat where "INS_SIGN_TRANSFER_TX = 0x24"

definition PUBKEYLEN :: nat where
  \<comment> \<open>Modelled from the spec: the constant of \<open>./consts\<close>, a 32-byte public key.\<close>
  "PUBKEYLEN = 32"

definition exchange :: "'d runtime \<Rightarrow> request \<Rightarrow> 'd world \<Rightarrow> reply \<times> 'd world" where
  "exchange rt req w =
     (case collaborator rt req (device w) of
        (r, d) \<Rightarrow> (r, w\<lparr>device := d, exchanges := exchanges w @ [(req, r)]\<rparr>))"

definition signSendChunk ::
  "'d runtime \<Rightarrow> nat \<Rightarrow> nat \<Rightarrow> nat \<Rightarrow> byte list option \<Rightarrow> 'd world \<Rightarrow> reply \<times> 'd world" where
  "signSendChunk rt ins chunkIdx chunkNum chunk w =
     exchange rt (SignSendChunk ins chunkIdx chunkNum chunk) w"

definition readBytes :: "nat \<Rightarrow> byte list \<Rightarrow> thrown + byte list \<times> byte list" where
  \<comment> \<open>the bytes read and the rest of the response\<close>
  "readBytes n response =
     (if n \<le> length response then Inr (take n response, drop n response)
      else Inl ReadBeyondBuffer)"

text \<open>
  The answer of the collaborator to \<open>transport.send\<close> is taken after \<open>processResponse\<close>:
  the payload of the response, or the error thrown for its status.
\<close>

definition getAddressAndPubKey ::
  "'d runtime \<Rightarrow> jsstring \<Rightarrow> bool \<Rightarrow> 'd world \<Rightarrow> (thrown + ResponseAddress) \<times> 'd world" where
  "getAddressAndPubKey rt bip44Path showAddrInDevice w =
     (let bip44PathBuffer = serializePath rt bip44Path;
          p1 = (if showAddrInDevice then 1 else 0)
      in case exchange rt (TransportSend CLA INS_GET_ADDR p1 0 bip44PathBuffer) w of
           (Inl e, w') \<Rightarrow> (Inl (processErrorResponse rt e), w')
         | (Inr response, w') \<Rightarrow>
             (case readBytes PUBKEYLEN response of
                Inl e \<Rightarrow> (Inl (processErrorResponse rt e), w')
              | Inr (pubkey', rest) \<Rightarrow>
                  (Inr \<lparr>pubkey = pubkey', address = Buffer_toString rt rest\<rparr>, w')))"

function chunk_loop ::
  "'d runtime \<Rightarrow> nat \<Rightarrow> byte list list \<Rightarrow> nat \<Rightarrow> byte list \<Rightarrow> 'd world \<Rightarrow> reply \<times> 'd world" where
  \<comment> \<open>\<open>for (let i = 1; i < chunks.length; i += 1)\<close>, entered with \<open>i\<close>\<close>
  "chunk_loop rt ins chunks i signatureResponse w =
     (if i < length chunks then
        (case signSendChunk rt ins (1 + i) (length chunks) (Some (chunks ! i)) w of
           (Inl e, w') \<Rightarrow> (Inl e, w')
         | (Inr r, w') \<Rightarrow> chunk_loop rt ins chunks (i + 1) r w')
      else (Inr signatureResponse, w))"
  by pat_completeness auto
termination
  by (relation "measure (\<lambda>(rt, ins, chunks, i, r, w). length chunks - i)") auto

declare chunk_loop.simps [simp del]

definition sendChunks ::
  "'d runtime \<Rightarrow> nat \<Rightarrow> byte list list \<Rightarrow> 'd world \<Rightarrow> reply \<times> 'd world" where
  \<comment> \<open>the first chunk, then the loop: the same lines in \<open>sign\<close>, \<open>signHash\<close> and
      \<open>signTxInternal\<close>; \<open>chunks[0]\<close> of an empty array is \<open>undefined\<close>\<close>
  "sendChunks rt ins chunks w =
     (case signSendChunk rt ins 1 (length chunks)
             (case chunks of [] \<Rightarrow> None | c # _ \<Rightarrow> Some c) w of
        (Inl e, w') \<Rightarrow> (Inl e, w')
      | (Inr signatureResponse, w') \<Rightarrow> chunk_loop rt ins chunks 1 signatureResponse w')"

definition sign ::
  "'d runtime \<Rightarrow> jsstring \<Rightarrow> byte list \<Rightarrow> 'd world \<Rightarrow> (thrown + ResponseSign) \<times> 'd world" where
  "sign rt bip32Path blob w =
     (let chunks = prepareChunks rt bip32Path blob
      in case sendChunks rt INS_SIGN chunks w of
           (Inl e, w') \<Rightarrow> (Inl (processErrorResponse rt e), w')
         | (Inr signatureResponse, w') \<Rightarrow> (Inr \<lparr>signature = signatureResponse\<rparr>, w'))"

datatype hash_input = HashString jsstring | HashBytes "byte list"

definition rawHash :: "'d runtime \<Rightarrow> hash_input \<Rightarrow> byte list" where
  "rawHash rt hash' =
     (case hash' of
        HashString s \<Rightarrow> (if length s = 64 then Buffer_from_hex rt s else Buffer_from_base64 rt s)
      | HashBytes b \<Rightarrow> b)"

definition signHash ::
  "'d runtime \<Rightarrow> jsstring \<Rightarrow> hash_input \<Rightarrow> 'd world \<Rightarrow> (thrown + ResponseSign) \<times> 'd world" where
  "signHash rt bip32Path hash' w =
     (if length (rawHash rt hash') \<noteq> 32 then (Inl (TypeError (js ''Hash is not 32 bytes'')), w)
      else
        let chunks = prepareChunks rt bip32Path (rawHash rt hash')
        in case sendChunks rt INS_SIGN_HASH chunks w of
             (Inl e, w') \<Rightarrow> (Inl (processErrorResponse rt e), w')
           | (Inr signatureResponse, w') \<Rightarrow> (Inr \<lparr>signature = signatureResponse\<rparr>, w'))"

text \<open>
  The transfer operations take \<open>params\<close> by reference: the argument is the address of the
  object of the caller, and \<open>heap w params\<close> is the object.
\<close>

definition signTxInternal ::
  "'d runtime \<Rightarrow> jsstring \<Rightarrow> nat \<Rightarrow> TransferTxType \<Rightarrow> 'd world
     \<Rightarrow> (thrown + ResponseSignTransfer) \<times> 'd world" where
  "signTxInternal rt bip32Path params txType w =
     (let t = getTime rt in
      case checkTransferTxParamsSanity rt (heap w params) of
        Inl e \<Rightarrow> (Inl e, w)
      | Inr _ \<Rightarrow>
        let recipient' = strip_k (recipient (heap w params));
            namespace' = (case namespace (heap w params) of None \<Rightarrow> [] | Some n \<Rightarrow> n);
            module' = (case module (heap w params) of None \<Rightarrow> [] | Some m \<Rightarrow> m);
            amount' = convertDecimal rt (Str (amount (heap w params)));
            gasPrice' = (case gasPrice (heap w params) of None \<Rightarrow> js ''1.0e-6'' | Some g \<Rightarrow> g);
            gasLimit' = (case gasLimit (heap w params) of None \<Rightarrow> js ''2300'' | Some g \<Rightarrow> g);
            creationTime' =
              (case creationTime (heap w params) of None \<Rightarrow> t div 1000 | Some c \<Rightarrow> c);
            ttl' = (case ttl (heap w params) of None \<Rightarrow> js ''600'' | Some x \<Rightarrow> x);
            nonce' = (case nonce (heap w params) of None \<Rightarrow> [] | Some x \<Rightarrow> x);
            txTypeB = [of_nat (tx_number txType)]
        in
        case recipient_chainId (heap w params) of
          None \<Rightarrow> (Inl UndefinedDereference, w)
        | Some rc \<Rightarrow>
          let payload =
                txTypeB
                @ textPayload recipient'
                @ textPayload (Number_toString rc)
                @ textPayload (network (heap w params))
                @ textPayload amount'
                @ textPayload namespace'
                @ textPayload module'
                @ textPayload gasPrice'
                @ textPayload gasLimit'
                @ textPayload (Number_toString creationTime')
                @ textPayload (toString (chainId (heap w params)))
                @ textPayload nonce'
                @ textPayload ttl';
              chunks = prepareChunks rt bip32Path payload
          in
          case sendChunks rt INS_SIGN_TRANSFER_TX chunks w of
            (Inl e, w1) \<Rightarrow> (Inl (processErrorResponse rt e), w1)
          | (Inr signatureResponse, w1) \<Rightarrow>
            (case getAddressAndPubKey rt bip32Path False w1 of
               (Inl e, w2) \<Rightarrow> (Inl (processErrorResponse rt e), w2)
             | (Inr pk, w2) \<Rightarrow>
               (case buildTransferJson (heap w2 params) (tx_number txType)
                       (Buffer_toString_hex (pubkey pk)) creationTime' of
                  Inl e \<Rightarrow> (Inl (processErrorResponse rt e), w2)
                | Inr json \<Rightarrow>
                    let hash_bytes = blake2b rt 32 (Buffer_from json);
                        hash' = hash_identifier hash_bytes
                    in (Inr \<lparr>signature = signatureResponse, cmd = json, hash = hash'\<rparr>,
                        w2))))"

definition signTransferTx ::
  "'d runtime \<Rightarrow> jsstring \<Rightarrow> nat \<Rightarrow> 'd world \<Rightarrow> (thrown + ResponseSignTransfer) \<times> 'd world" where
  \<comment> \<open>\<open>p1\<close> is the object \<open>params\<close> itself, so the assignment writes to the caller's object\<close>
  "signTransferTx rt bip32Path params w =
     (let p1 = params;
          w0 = w\<lparr>heap := (heap w)(p1 := (heap w p1)\<lparr>recipient_chainId := Some 0\<rparr>)\<rparr>
      in signTxInternal rt bip32Path p1 TRANSFER w0)"

definition signTransferCreateTx ::
  "'d runtime \<Rightarrow> jsstring \<Rightarrow> nat \<Rightarrow> 'd world \<Rightarrow> (thrown + ResponseSignTransfer) \<times> 'd world" where
  "signTransferCreateTx rt bip32Path params w =
     (let p1 = params;
          w0 = w\<lparr>heap := (heap w)(p1 := (heap w p1)\<lparr>recipient_chainId := Some 0\<rparr>)\<rparr>
      in signTxInternal rt bip32Path p1 TRANSFER_CREATE w0)"

fun loose_eq :: "'d runtime \<Rightarrow> jsval \<Rightarrow> int option \<Rightarrow> bool" where
  \<comment> \<open>\<open>a == b\<close> for \<open>b\<close> a number or \<open>undefined\<close>: a string is converted to a number\<close>
  "loose_eq rt v None = False"
| "loose_eq rt (Num a) (Some b) = (a = b)"
| "loose_eq rt (Str s) (Some b) = (StringToNumber rt s = Integral b)"

definition signTransferCrossChainTx ::
  "'d runtime \<Rightarrow> jsstring \<Rightarrow> nat \<Rightarrow> 'd world \<Rightarrow> (thrown + ResponseSignTransfer) \<times> 'd world" where
  "signTransferCrossChainTx rt bip32Path params w =
     (if loose_eq rt (chainId (heap w params)) (recipient_chainId (heap w params)) then
        (Inl (TypeError (js ''Recipient chainId is same as sender's in a cross-chain transfer'')),
         w)
      else signTxInternal rt bip32Path params TRANSFER_CROSS_CHAIN w)"

section \<open>The payload\<close>

text \<open>
  The payload that \<open>signTxInternal\<close> assembles, by its parts: the twelve texts that it
  passes to \<open>textPayload\<close>, in the order of \<open>Buffer.concat\<close>, for a recipient chain id \<open>rc\<close>;
  and the byte of the transaction type followed by what \<open>textPayload\<close> returns for each.
\<close>

definition transfer_fields ::
  "'d runtime \<Rightarrow> TransferCrossChainTxParams \<Rightarrow> int \<Rightarrow> jsstring list" where
  "transfer_fields rt p rc =
     [strip_k (recipient p),
      Number_toString rc,
      network p,
      convertDecimal rt (Str (amount p)),
      (case namespace p of None \<Rightarrow> [] | Some n \<Rightarrow> n),
      (case module p of None \<Rightarrow> [] | Some m \<Rightarrow> m),
      (case gasPrice p of None \<Rightarrow> js ''1.0e-6'' | Some g \<Rightarrow> g),
      (case gasLimit p of None \<Rightarrow> js ''2300'' | Some g \<Rightarrow> g),
      Number_toString (case creationTime p of None \<Rightarrow> getTime rt div 1000 | Some c \<Rightarrow> c),
      toString (chainId p),
      (case nonce p of None \<Rightarrow> [] | Some n \<Rightarrow> n),
      (case ttl p of None \<Rightarrow> js ''600'' | Some t \<Rightarrow> t)]"

definition transfer_payload :: "nat \<Rightarrow> jsstring list \<Rightarrow> byte list" where
  "transfer_payload tag texts = of_nat tag # concat (map textPayload texts)"

text \<open>
  The payload of the specification: the tag, then each text as a length-prefixed unit, one
  byte that is the byte length of the text followed by the bytes of the text.
\<close>

definition length_prefixed_unit :: "jsstring \<Rightarrow> byte list" where
  "length_prefixed_unit txt = of_nat (length (Buffer_from txt)) # Buffer_from txt"

definition specified_payload :: "nat \<Rightarrow> jsstring list \<Rightarrow> byte list" where
  "specified_payload tag texts = of_nat tag # concat (map length_prefixed_unit texts)"

definition address_request :: "'d runtime \<Rightarrow> jsstring \<Rightarrow> request" where
  \<comment> \<open>the request of \<open>getAddressAndPubKey(path, false)\<close>\<close>
  "address_request rt bip32Path = TransportSend CLA INS_GET_ADDR 0 0 (serializePath rt bip32Path)"

text \<open>The normalised fields of the specification, as a parameter record: the amount with
  its decimal point, and the defaults in the place of what the intent omits.\<close>

definition normalized ::
  "'d runtime \<Rightarrow> TransferCrossChainTxParams \<Rightarrow> TransferCrossChainTxParams" where
  "normalized rt p =
     p\<lparr>amount := convertDecimal rt (Str (amount p)),
       gasPrice := Some (case gasPrice p of None \<Rightarrow> js ''1.0e-6'' | Some g \<Rightarrow> g),
       gasLimit := Some (case gasLimit p of None \<Rightarrow> js ''2300'' | Some g \<Rightarrow> g),
       ttl := Some (case ttl p of None \<Rightarrow> js ''600'' | Some t \<Rightarrow> t),
       nonce := Some (case nonce p of None \<Rightarrow> [] | Some n \<Rightarrow> n)\<rparr>"

section \<open>The chunked transfer, as the specification describes it\<close>

text \<open>
  The requests for a list of chunks: one per chunk, in order, with the 1-based index of the
  chunk and the number of chunks. For an empty list the source still makes one request,
  with index 1, count 0 and no chunk.
\<close>

definition chunk_request :: "nat \<Rightarrow> byte list list \<Rightarrow> nat \<Rightarrow> request" where
  "chunk_request ins chunks i = SignSendChunk ins (i + 1) (length chunks) (Some (chunks ! i))"

definition chunk_requests :: "nat \<Rightarrow> byte list list \<Rightarrow> request list" where
  "chunk_requests ins chunks =
     (if chunks = [] then [SignSendChunk ins 1 0 None]
      else map (chunk_request ins chunks) [0..<length chunks])"

text \<open>Requests made one after the other: the first failure ends the sequence, and the
  answer is that of the last request made.\<close>

fun dispatch :: "'d runtime \<Rightarrow> request list \<Rightarrow> reply \<Rightarrow> 'd world \<Rightarrow> reply \<times> 'd world" where
  "dispatch rt [] r w = (r, w)"
| "dispatch rt (req # reqs) r w =
     (case exchange rt req w of
        (Inl e, w') \<Rightarrow> (Inl e, w')
      | (Inr r', w') \<Rightarrow> dispatch rt reqs (Inr r') w')"

definition answered :: "(request \<times> reply) \<Rightarrow> bool" where
  "answered x = (\<not> isl (snd x))"

text \<open>
  The chunked transfer of the specification, for a call that starts in the world \<open>w\<close> and
  ends with \<open>out\<close>: the call adds to the exchanges the first \<open>k\<close> chunk requests, \<open>1 \<le> k \<le> N\<close>,
  in order, each with its 1-based index and the count \<open>N\<close>; every request but the last of
  them was answered; if the last was not, nothing follows it and the call fails; if it was,
  all \<open>N\<close> were sent, and only requests of \<open>later\<close> follow; and the signature of a result is
  the answer to the last, the \<open>N\<close>th, request.
\<close>

definition dispatched_in_order ::
  "nat \<Rightarrow> byte list list \<Rightarrow> request list \<Rightarrow> 'd world
     \<Rightarrow> (thrown + 'a ResponseSign_scheme) \<times> 'd world \<Rightarrow> bool" where
  "dispatched_in_order ins chunks later w out =
     (\<exists>xs ys. exchanges (snd out) = exchanges w @ xs @ ys
        \<and> 1 \<le> length xs \<and> length xs \<le> length chunks
        \<and> map fst xs = map (chunk_request ins chunks) [0..<length xs]
        \<and> list_all answered (butlast xs)
        \<and> (\<not> answered (last xs) \<longrightarrow> ys = [] \<and> isl (fst out))
        \<and> (answered (last xs) \<longrightarrow>
              length xs = length chunks \<and> map fst ys = take (length ys) later)
        \<and> (\<forall>res. fst out = Inr res \<longrightarrow> snd (last xs) = Inr (signature res)))"

section \<open>A sample runtime\<close>

text \<open>
  A runtime to run the operations on examples. Its conversion of strings to numbers is the
  \<open>StringToNumber\<close> of the language: white space is trimmed, the empty text is 0, a literal
  is binary, octal, hexadecimal or decimal with an optional fraction and exponent, and the
  value is rounded to the nearest double, ties to even. Its decoders read well-formed
  input; its digest is a stand-in that only has the length of the real one; its device
  signs with a fixed signature and has a fixed public key.
\<close>

definition is_white_space :: "unit16 \<Rightarrow> bool" where
  "is_white_space u =
     (u \<in> set [0x9, 0xA, 0xB, 0xC, 0xD, 0x20, 0xA0, 0x1680, 0x2028, 0x2029, 0x202F, 0x205F,
               0x3000, 0xFEFF]
      \<or> (0x2000 \<le> u \<and> u \<le> 0x200A))"

definition trim :: "jsstring \<Rightarrow> jsstring" where
  "trim s = rev (dropWhile is_white_space (rev (dropWhile is_white_space s)))"

definition hex_value :: "unit16 \<Rightarrow> nat option" where
  "hex_value u =
     (if 0x30 \<le> u \<and> u \<le> 0x39 then Some (unat u - 0x30)
      else if 0x41 \<le> u \<and> u \<le> 0x46 then Some (unat u - 0x37)
      else if 0x61 \<le> u \<and> u \<le> 0x66 then Some (unat u - 0x57)
      else None)"

definition is_radix_digit :: "nat \<Rightarrow> unit16 \<Rightarrow> bool" where
  "is_radix_digit radix u = (case hex_value u of None \<Rightarrow> False | Some d \<Rightarrow> d < radix)"

definition radix_value :: "nat \<Rightarrow> jsstring \<Rightarrow> nat" where
  "radix_value radix s =
     foldl (\<lambda>n u. radix * n + (case hex_value u of None \<Rightarrow> 0 | Some d \<Rightarrow> d)) 0 s"

function bit_length :: "nat \<Rightarrow> nat" where
  "bit_length n = (if n = 0 then 0 else 1 + bit_length (n div 2))"
  by pat_completeness auto
termination
  by (relation "measure id") auto

declare bit_length.simps [simp del]

definition round_half_even :: "nat \<Rightarrow> nat \<Rightarrow> nat" where
  \<comment> \<open>\<open>a / b\<close> rounded to the nearest integer, ties to even\<close>
  "round_half_even a b =
     (let q = a div b; r = a mod b
      in if 2 * r < b then q else if b < 2 * r then q + 1 else if even q then q else q + 1)"

definition to_double :: "bool \<Rightarrow> nat \<Rightarrow> nat \<Rightarrow> numclass" where
  \<comment> \<open>the double nearest to \<open>a / b\<close>, with 53 bits above the exponent \<open>p\<close> of its last
      place: zero, an integer, or another number (a fraction or an infinity)\<close>
  "to_double negative a b =
     (if a = 0 then Integral 0
      else
        let d = int (bit_length a) - int (bit_length b);
            e = (if (if 0 \<le> d then b * 2 ^ nat d \<le> a else b \<le> a * 2 ^ nat (- d))
                 then d else d - 1);
            p = max e (- 1022) - 52;
            m = (if 0 \<le> p then round_half_even a (b * 2 ^ nat p)
                 else round_half_even (a * 2 ^ nat (- p)) b)
        in if m = 0 then Integral 0
           else if 0 \<le> p then
             (if 2 ^ 1024 \<le> m * 2 ^ nat p then NonIntegral
              else Integral ((if negative then - 1 else 1) * int (m * 2 ^ nat p)))
           else if 2 ^ nat (- p) dvd m then
             Integral ((if negative then - 1 else 1) * int (m div 2 ^ nat (- p)))
           else NonIntegral)"

definition is_exponent_indicator :: "unit16 \<Rightarrow> bool" where
  "is_exponent_indicator u = (u = 0x65 \<or> u = 0x45)"

definition decimal_literal :: "bool \<Rightarrow> jsstring \<Rightarrow> numclass" where
  "decimal_literal negative body =
     (let mantissa = takeWhile (\<lambda>u. \<not> is_exponent_indicator u) body;
          after = dropWhile (\<lambda>u. \<not> is_exponent_indicator u) body;
          exponent_text = drop 1 after;
          exponent_negative = (take 1 exponent_text = [0x2D]);
          exponent_digits =
            (if take 1 exponent_text = [0x2D] \<or> take 1 exponent_text = [0x2B]
             then drop 1 exponent_text else exponent_text);
          whole = takeWhile (\<lambda>u. u \<noteq> 0x2E) mantissa;
          fraction = drop 1 (dropWhile (\<lambda>u. u \<noteq> 0x2E) mantissa);
          k = (if exponent_negative then - int (radix_value 10 exponent_digits)
               else int (radix_value 10 exponent_digits)) - int (length fraction);
          m = radix_value 10 (whole @ fraction)
      in if \<not> list_all (is_radix_digit 10) whole \<or> \<not> list_all (is_radix_digit 10) fraction
            \<or> (whole = [] \<and> fraction = [])
            \<or> (after \<noteq> []
                \<and> (exponent_digits = [] \<or> \<not> list_all (is_radix_digit 10) exponent_digits))
         then NaN
         else if 0 \<le> k then to_double negative (m * 10 ^ nat k) 1
         else to_double negative m (10 ^ nat (- k)))"

definition sample_StringToNumber :: "jsstring \<Rightarrow> numclass" where
  "sample_StringToNumber s =
     (let text = trim s;
          prefix = take 2 text;
          digits = drop 2 text;
          negative = (take 1 text = [0x2D]);
          body = (if take 1 text = [0x2D] \<or> take 1 text = [0x2B] then drop 1 text else text)
      in if text = [] then Integral 0
         else if (prefix = js ''0x'' \<or> prefix = js ''0X'') \<and> digits \<noteq> []
                 \<and> list_all (is_radix_digit 16) digits
           then to_double False (radix_value 16 digits) 1
         else if (prefix = js ''0o'' \<or> prefix = js ''0O'') \<and> digits \<noteq> []
                 \<and> list_all (is_radix_digit 8) digits
           then to_double False (radix_value 8 digits) 1
         else if (prefix = js ''0b'' \<or> prefix = js ''0B'') \<and> digits \<noteq> []
                 \<and> list_all (is_radix_digit 2) digits
           then to_double False (radix_value 2 digits) 1
         else if body = js ''Infinity'' then NonIntegral
         else decimal_literal negative body)"

fun sample_from_hex :: "jsstring \<Rightarrow> byte list" where
  "sample_from_hex (a # b # rest) =
     (case (hex_value a, hex_value b) of
        (Some x, Some y) \<Rightarrow> of_nat (16 * x + y) # sample_from_hex rest
      | _ \<Rightarrow> [])"
| "sample_from_hex [a] = []"
| "sample_from_hex [] = []"

definition base64_value :: "unit16 \<Rightarrow> nat option" where
  "base64_value u =
     (if 0x41 \<le> u \<and> u \<le> 0x5A then Some (unat u - 65)
      else if 0x61 \<le> u \<and> u \<le> 0x7A then Some (unat u - 71)
      else if 0x30 \<le> u \<and> u \<le> 0x39 then Some (unat u + 4)
      else if u = 0x2B \<or> u = 0x2D then Some 62
      else if u = 0x2F \<or> u = 0x5F then Some 63
      else None)"

fun sextets_to_bytes :: "nat list \<Rightarrow> byte list" where
  "sextets_to_bytes (a # b # c # d # rest) =
     [of_nat (a * 4 + b div 16), of_nat ((b mod 16) * 16 + c div 4), of_nat ((c mod 4) * 64 + d)]
     @ sextets_to_bytes rest"
| "sextets_to_bytes [a, b, c] = [of_nat (a * 4 + b div 16), of_nat ((b mod 16) * 16 + c div 4)]"
| "sextets_to_bytes [a, b] = [of_nat (a * 4 + b div 16)]"
| "sextets_to_bytes [a] = []"
| "sextets_to_bytes [] = []"

definition sample_from_base64 :: "jsstring \<Rightarrow> byte list" where
  "sample_from_base64 s =
     sextets_to_bytes (List.map_filter base64_value (takeWhile (\<lambda>u. u \<noteq> 0x3D) s))"

definition sample_digest :: "nat \<Rightarrow> byte list \<Rightarrow> byte list" where
  "sample_digest n bs = take n (bs @ replicate n 0)"

function slices :: "nat \<Rightarrow> byte list \<Rightarrow> byte list list" where
  "slices n bs = (if n = 0 \<or> bs = [] then [] else take n bs # slices n (drop n bs))"
  by pat_completeness auto
termination
  by (relation "measure (\<lambda>(n, bs). length bs)") auto

declare slices.simps [simp del]

definition sample_prepareChunks :: "jsstring \<Rightarrow> byte list \<Rightarrow> byte list list" where
  \<comment> \<open>the path descriptor, then the message in slices of the chunk size\<close>
  "sample_prepareChunks bip32Path message = Buffer_from bip32Path # slices 250 message"

definition sample_pubkey :: "byte list" where
  "sample_pubkey = replicate 32 0x11"

definition sample_signature :: "byte list" where
  "sample_signature = replicate 64 0xAB"

fun sample_device :: "request \<Rightarrow> nat \<Rightarrow> reply \<times> nat" where
  \<comment> \<open>the state counts the requests\<close>
  "sample_device (SignSendChunk ins chunkIdx chunkNum chunk) n =
     (if chunkIdx = chunkNum then Inr sample_signature else Inr [], n + 1)"
| "sample_device (TransportSend cla ins p1 p2 data) n =
     (Inr (sample_pubkey @ [0x6B, 0x3A, 0x31, 0x31]), n + 1)"

fun rejecting_device :: "request \<Rightarrow> nat \<Rightarrow> reply \<times> nat" where
  \<comment> \<open>a device on which the user rejects at the second request\<close>
  "rejecting_device req n = (if n = 1 then Inl (TransportError 0x6986) else Inr [], n + 1)"

definition sample_runtime :: "nat runtime" where
  "sample_runtime =
     \<lparr>StringToNumber = sample_StringToNumber,
      Buffer_from_hex = sample_from_hex,
      Buffer_from_base64 = sample_from_base64,
      Buffer_toString = map ucast,
      blake2b = sample_digest,
      getTime = 1700000000123,
      serializePath = Buffer_from,
      prepareChunks = sample_prepareChunks,
      processErrorResponse = ResponseError,
      collaborator = sample_device\<rparr>"

definition sample_params :: TransferCrossChainTxParams where
  "sample_params =
     \<lparr>path = None, namespace = None, module = None,
      recipient = js ''k:'' @ replicate 64 0x61,
      amount = js ''10'',
      chainId = Num 0,
      network = js ''testnet'',
      gasPrice = None, gasLimit = None, creationTime = Some 1700000000,
      ttl = None, nonce = None,
      recipient_chainId = None\<rparr>"

definition sample_path :: jsstring where
  "sample_path = js ''m/44'/626'/0'/0/0''"

text \<open>The payload and the command document of the sample request, when it is signed as a
  plain transfer.\<close>

definition sample_payload :: "byte list" where
  "sample_payload =
     transfer_payload 0
       [replicate 64 0x61, js ''0'', js ''testnet'', js ''10.0'', [], [], js ''1.0e-6'',
        js ''2300'', js ''1700000000'', js ''0'', [], js ''600'']"

definition sample_document :: jsstring where
  \<open>sample_document =
     js ''{"networkId":"testnet","payload":{"exec":{"data":{},"code":"(coin.transfer ''
     @ bq @ js ''k:'' @ replicate 64 0x31 @ bq @ js '' '' @ bq @ js ''k:'' @ replicate 64 0x61
     @ bq @ js '' 10)"}},"signers":[{"pubKey":"'' @ replicate 64 0x31
     @ js ''","clist":[{"args":["k:'' @ replicate 64 0x31 @ js ''","k:'' @ replicate 64 0x61
     @ js ''",10],"name":"coin.TRANSFER"},{"args":[],"name":"coin.GAS"}]}]''
     @ js '',"meta":{"creationTime":1700000000,"ttl":undefined,"gasLimit":undefined''
     @ js '',"chainId":"0","gasPrice":undefined,"sender":"k:'' @ replicate 64 0x31
     @ js ''"},"nonce":"undefined"}''\<close>

definition sample_world :: "nat world" where
  "sample_world = \<lparr>heap = (\<lambda>a. sample_params), device = 0, exchanges = []\<rparr>"

text \<open>
  The sample request with the nonce \<open>U+00E9\<close>, a text of one character and two bytes, and
  the payload that is sent for it: every field is a length-prefixed unit but the nonce,
  for which the bytes 1, 0 are sent.
\<close>

definition accented_world :: "nat world" where
  "accented_world =
     \<lparr>heap = (\<lambda>a. sample_params\<lparr>nonce := Some [0xE9]\<rparr>), device = 0, exchanges = []\<rparr>"

definition accented_payload :: "byte list" where
  "accented_payload =
     0 # concat (map length_prefixed_unit
                   [replicate 64 0x61, js ''0'', js ''testnet'', js ''10.0'', [], [],
                    js ''1.0e-6'', js ''2300'', js ''1700000000'', js ''0''])
       @ [1, 0]
       @ length_prefixed_unit (js ''600'')"

text \<open>A world in which the parameter object already has a recipient chain id, 5.\<close>

definition reused_world :: "nat world" where
  "reused_world =
     \<lparr>heap = (\<lambda>a. sample_params\<lparr>recipient_chainId := Some 5\<rparr>), device = 0, exchanges = []\<rparr>"

section \<open>Properties of the field encoder\<close>

lemma utf8_unit_ascii: "u < 0x80 \<Longrightarrow> utf8_unit u = [ucast u]"
proof -
  assume a: "u < 0x80"
  then have n: "unat u < 128"
    by (simp add: word_less_nat_alt)
  from a have "\<not> is_high_surrogate u" "\<not> is_low_surrogate u"
    by (auto simp: is_high_surrogate_def is_low_surrogate_def word_le_nat_alt word_less_nat_alt)
  with n show ?thesis
    by (simp add: utf8_unit_def utf8_code_point_def)
qed

lemma ascii_not_high: "u < 0x80 \<Longrightarrow> \<not> is_high_surrogate (u :: unit16)"
  by (auto simp: is_high_surrogate_def word_le_nat_alt word_less_nat_alt)

lemma utf8_chars_ascii: "is_ascii s \<Longrightarrow> utf8_chars s = map (\<lambda>u. [ucast u]) s"
proof (induction s rule: utf8_chars.induct)
  case (1 u v rest)
  then show ?case
    by (simp add: is_ascii_def utf8_unit_ascii ascii_not_high)
next
  case (2 u)
  then show ?case by (simp add: is_ascii_def utf8_unit_ascii)
next
  case 3
  then show ?case by simp
qed

lemma Buffer_from_ascii: "is_ascii s \<Longrightarrow> Buffer_from s = map ucast s"
  by (simp add: Buffer_from_def utf8_chars_ascii concat_map_singleton)

lemma fit_chars_singletons:
  "length s \<le> room \<Longrightarrow> fit_chars room (map (\<lambda>u. [f u]) s) = map f s"
  by (induction s arbitrary: room) auto

lemma textPayload_ascii:
  "is_ascii txt \<Longrightarrow> textPayload txt = of_nat (length txt) # map ucast txt"
  by (simp add: textPayload_def Buffer_write_def utf8_chars_ascii fit_chars_singletons
      Let_def)




section \<open>Properties of the chunked transfer\<close>

lemma exchange_effect:
  "exchange rt req w = (r, w') \<Longrightarrow>
     heap w' = heap w \<and> exchanges w' = exchanges w @ [(req, r)]"
  by (auto simp: exchange_def split: prod.splits)

lemma signSendChunk_request:
  "signSendChunk rt ins (Suc i) (length chunks) (Some (chunks ! i)) w
     = exchange rt (chunk_request ins chunks i) w"
  by (simp add: signSendChunk_def chunk_request_def)

lemma chunk_loop_dispatch:
  "chunk_loop rt ins chunks i resp w
     = dispatch rt (map (chunk_request ins chunks) [i..<length chunks]) (Inr resp) w"
proof (induction rt ins chunks i resp w rule: chunk_loop.induct)
  case (1 rt ins chunks i resp w)
  show ?case
  proof (cases "i < length chunks")
    case True
    then have u: "[i..<length chunks] = i # [i + 1..<length chunks]"
      by (simp add: upt_conv_Cons)
    show ?thesis
      using True 1
      by (subst chunk_loop.simps)
        (simp add: u signSendChunk_request split: prod.splits sum.splits)
  next
    case False
    then show ?thesis
      by (subst chunk_loop.simps) simp
  qed
qed

lemma upt_from_0: "0 < n \<Longrightarrow> [0..<n] = 0 # [1..<n]"
  by (simp add: upt_conv_Cons)

lemma sendChunks_dispatch:
  "sendChunks rt ins chunks w = dispatch rt (chunk_requests ins chunks) r0 w"
proof (cases chunks)
  case Nil
  then show ?thesis
    by (simp add: sendChunks_def chunk_requests_def signSendChunk_def chunk_loop_dispatch
        split: prod.splits sum.splits)
next
  case (Cons c cs)
  then have u: "[0..<length chunks] = 0 # [1..<length chunks]"
    by (intro upt_from_0) simp
  have s: "signSendChunk rt ins 1 (length chunks) (Some c) w
             = exchange rt (chunk_request ins chunks 0) w"
    using Cons by (simp add: signSendChunk_def chunk_request_def)
  have c: "chunk_requests ins chunks
             = chunk_request ins chunks 0 # map (chunk_request ins chunks) [1..<length chunks]"
    unfolding chunk_requests_def u using Cons by simp
  have "sendChunks rt ins chunks w =
          (case exchange rt (chunk_request ins chunks 0) w of
             (Inl e, w') \<Rightarrow> (Inl e, w')
           | (Inr signatureResponse, w') \<Rightarrow> chunk_loop rt ins chunks 1 signatureResponse w')"
    unfolding sendChunks_def s [symmetric] using Cons by simp
  then show ?thesis
    unfolding c by (simp add: chunk_loop_dispatch split: prod.splits sum.splits)
qed

lemma dispatch_exchanges:
  "dispatch rt reqs r0 w = (r, w') \<Longrightarrow>
     \<exists>xs. exchanges w' = exchanges w @ xs \<and> heap w' = heap w
        \<and> length xs \<le> length reqs \<and> map fst xs = take (length xs) reqs
        \<and> list_all answered (butlast xs)
        \<and> (if xs = [] then r = r0 \<and> reqs = [] else snd (last xs) = r)
        \<and> (\<not> isl r \<longrightarrow> length xs = length reqs)"
proof (induction reqs arbitrary: r0 w)
  case Nil
  then show ?case by simp
next
  case (Cons req reqs)
  obtain r1 w1 where ex: "exchange rt req w = (r1, w1)"
    by (cases "exchange rt req w")
  then have w1: "heap w1 = heap w" "exchanges w1 = exchanges w @ [(req, r1)]"
    using exchange_effect by blast+
  show ?case
  proof (cases r1)
    case (Inl e)
    with Cons.prems ex have "r = Inl e" "w' = w1" by simp_all
    with w1 Inl show ?thesis
      by (intro exI [of _ "[(req, r1)]"]) simp
  next
    case (Inr r')
    with Cons.prems ex have "dispatch rt reqs (Inr r') w1 = (r, w')" by simp
    from Cons.IH [OF this] obtain xs where xs:
      "exchanges w' = exchanges w1 @ xs" "heap w' = heap w1"
      "length xs \<le> length reqs" "map fst xs = take (length xs) reqs"
      "list_all answered (butlast xs)"
      "if xs = [] then r = Inr r' \<and> reqs = [] else snd (last xs) = r"
      "\<not> isl r \<longrightarrow> length xs = length reqs"
      by blast
    have a: "answered (req, r1)" using Inr by (simp add: answered_def)
    show ?thesis
    proof (intro exI [of _ "(req, r1) # xs"] conjI)
      show "exchanges w' = exchanges w @ (req, r1) # xs" using xs w1 by simp
      show "heap w' = heap w" using xs w1 by simp
      show "length ((req, r1) # xs) \<le> length (req # reqs)" using xs by simp
      show "map fst ((req, r1) # xs) = take (length ((req, r1) # xs)) (req # reqs)"
        using xs by simp
      show "list_all answered (butlast ((req, r1) # xs))" using xs a by simp
      show "if (req, r1) # xs = [] then r = r0 \<and> req # reqs = []
            else snd (last ((req, r1) # xs)) = r"
        using xs(6) Inr by (cases "xs = []") simp_all
      show "\<not> isl r \<longrightarrow> length ((req, r1) # xs) = length (req # reqs)" using xs by simp
    qed
  qed
qed

section \<open>Properties of the validation\<close>

lemma length_js: "length (js s) = length s"
  by (simp add: js_def)

lemma match_hex_run_short: "length s < n \<Longrightarrow> \<not> match_hex_run n s"
  by (induction s) auto

lemma match_hex_run_exact: "length s = n \<Longrightarrow> match_hex_run n s = list_all is_hex_digit s"
  by (cases s) (auto simp: match_hex_run_short)

lemma property_recipient_update:
  "key \<noteq> ''recipient'' \<Longrightarrow> property (params\<lparr>recipient := r\<rparr>) key = property params key"
  by (simp add: property_def)

lemma check_maxLengths_other:
  "''recipient'' \<notin> fst ` set entries \<Longrightarrow>
     check_maxLengths (params\<lparr>recipient := r\<rparr>) r1 entries
       = check_maxLengths params r2 entries"
  by (induction entries) (auto simp: property_recipient_update Let_def)

lemma strip_k_zeros: "strip_k (replicate 64 0x30) = replicate 64 0x30"
  by (simp add: strip_k_def startsWith_def js_def)

lemma is_hex64_zeros: "is_hex64 (replicate 64 0x30)"
  by (simp add: is_hex64_def list_all_iff is_hex_digit_def)

lemma check_maxLengths_recipient:
  "check_maxLengths params r maxLengths =
     (if length r \<noteq> 64 then
        Inl (TypeError (js ''recipient'' @ js '' should be exactly '' @ nat_toString 64
                          @ js '' characters long''))
      else check_maxLengths params r (tl maxLengths))"
  by (simp add: maxLengths_def)

lemma tl_maxLengths_other: "''recipient'' \<notin> fst ` set (tl maxLengths)"
  by (simp add: maxLengths_def)

lemma check_hex64:
  assumes "is_hex64 (strip_k (recipient params))"
  shows "checkTransferTxParamsSanity rt params
           = checkTransferTxParamsSanity rt (params\<lparr>recipient := replicate 64 0x30\<rparr>)"
proof -
  have m: "match_hex_run 64 (strip_k (recipient params))"
      "length (strip_k (recipient params)) = 64"
    using assms by (simp_all add: is_hex64_def match_hex_run_exact)
  have m0: "match_hex_run 64 (replicate 64 0x30)" "length (replicate 64 (0x30::unit16)) = 64"
    using is_hex64_zeros by (simp_all add: is_hex64_def match_hex_run_exact)
  have c: "check_maxLengths (params\<lparr>recipient := replicate 64 0x30\<rparr>) (replicate 64 0x30)
             (tl maxLengths)
           = check_maxLengths params (strip_k (recipient params)) (tl maxLengths)"
    by (rule check_maxLengths_other [OF tl_maxLengths_other])
  show ?thesis
    unfolding checkTransferTxParamsSanity_def Let_def check_maxLengths_recipient
    by (simp add: m m0 c strip_k_zeros)
qed

lemma check_not_hex64:
  assumes "\<not> is_hex64 (strip_k (recipient params))"
  shows "\<exists>m. checkTransferTxParamsSanity rt params = Inl (TypeError m)"
proof (cases "length (strip_k (recipient params)) = 64")
  case True
  with assms have "\<not> match_hex_run 64 (strip_k (recipient params))"
    by (simp add: is_hex64_def match_hex_run_exact)
  then show ?thesis
    by (simp add: checkTransferTxParamsSanity_def)
next
  case False
  then show ?thesis
    unfolding checkTransferTxParamsSanity_def Let_def check_maxLengths_recipient
    by simp
qed

text \<open>The sample parameters pass the validation, with any recipient of 64 hex digits.\<close>

lemma sample_recipient: "strip_k (recipient sample_params) = replicate 64 0x61"
  by (simp add: sample_params_def strip_k_def startsWith_def js_def)

lemma sample_is_hex64: "is_hex64 (replicate 64 0x61)"
  by (simp add: is_hex64_def list_all_iff is_hex_digit_def)

lemma bit_length_numeral:
  "bit_length 0 = 0" "bit_length 1 = 1"
  "bit_length (numeral (Num.Bit0 n)) = 1 + bit_length (numeral n)"
  "bit_length (numeral (Num.Bit1 n)) = 1 + bit_length (numeral n)"
  by (subst bit_length.simps, simp)+

lemma sample_number_10: "sample_StringToNumber (js ''10'') = Integral 10"
  by (simp add: sample_StringToNumber_def decimal_literal_def to_double_def trim_def
      is_white_space_def is_exponent_indicator_def is_radix_digit_def radix_value_def
      hex_value_def round_half_even_def bit_length_numeral js_def Let_def)

lemma sample_number_0: "sample_StringToNumber (js ''0'') = Integral 0"
  by (simp add: sample_StringToNumber_def decimal_literal_def to_double_def trim_def
      is_white_space_def is_exponent_indicator_def is_radix_digit_def radix_value_def
      hex_value_def js_def Let_def)

lemma sample_params_valid:
  assumes "length (or_empty_toString (map_option Num rc)) \<le> 2"
  shows "checkTransferTxParamsSanity sample_runtime (sample_params\<lparr>recipient_chainId := rc\<rparr>)
           = Inr ()"
proof -
  have r: "strip_k (recipient (sample_params\<lparr>recipient_chainId := rc\<rparr>)) = replicate 64 0x61"
    using sample_recipient by simp
  have m: "match_hex_run 64 (replicate 64 0x61)"
    using sample_is_hex64 by (simp add: is_hex64_def match_hex_run_exact)
  have n: "sample_StringToNumber (js ''10'') = Integral 10"
    by (rule sample_number_10)
  have t: "length (Number_toString 1700000000) = 10"
    by (simp add: Number_toString_def nat_toString.simps)
  show ?thesis
    unfolding checkTransferTxParamsSanity_def r
    using assms
    by (simp add: m n t sample_params_def sample_runtime_def maxLengths_def property_def
        length_js)
qed

text \<open>
  C4: the validation accepts a request if and only if its recipient, after an optional
  \<open>k:\<close> prefix is stripped, is exactly 64 hexadecimal characters and the request is accepted
  with some such recipient in its place; any other recipient is rejected with an error.
\<close>

theorem recipient_validation:
  "(checkTransferTxParamsSanity rt params = Inr ()) =
     (is_hex64 (strip_k (recipient params))
      \<and> checkTransferTxParamsSanity rt (params\<lparr>recipient := replicate 64 0x30\<rparr>) = Inr ())
   \<and> (\<not> is_hex64 (strip_k (recipient params))
        \<longrightarrow> (\<exists>m. checkTransferTxParamsSanity rt params = Inl (TypeError m)))"
proof (cases "is_hex64 (strip_k (recipient params))")
  case True
  then show ?thesis
    using check_hex64 [OF True, of rt] by simp
next
  case False
  then show ?thesis
    using check_not_hex64 [OF False, of rt] by auto
qed

theorem recipient_validation_witness:
  "is_hex64 (strip_k (js ''k:'' @ replicate 64 0x61))
   \<and> checkTransferTxParamsSanity sample_runtime sample_params = Inr ()
   \<and> checkTransferTxParamsSanity sample_runtime
        (sample_params\<lparr>recipient := replicate 64 0x61\<rparr>) = Inr ()
   \<and> \<not> is_hex64 (strip_k (replicate 63 0x61))
   \<and> (\<exists>m. checkTransferTxParamsSanity sample_runtime
              (sample_params\<lparr>recipient := replicate 63 0x61\<rparr>) = Inl (TypeError m))
   \<and> \<not> is_hex64 (strip_k (replicate 65 0x61))
   \<and> (\<exists>m. checkTransferTxParamsSanity sample_runtime
              (sample_params\<lparr>recipient := replicate 65 0x61\<rparr>) = Inl (TypeError m))
   \<and> \<not> is_hex64 (strip_k (replicate 63 0x61 @ js ''g''))
   \<and> (\<exists>m. checkTransferTxParamsSanity sample_runtime
              (sample_params\<lparr>recipient := replicate 63 0x61 @ js ''g''\<rparr>) = Inl (TypeError m))"
proof -
  have s: "strip_k (replicate n 0x61 @ t) = replicate n 0x61 @ t" if "0 < n" for n t
    using that by (cases n) (simp_all add: strip_k_def startsWith_def js_def)
  have k: "strip_k (js ''k:'' @ replicate 64 0x61) = replicate 64 0x61"
    by (simp add: strip_k_def startsWith_def js_def)
  have v: "checkTransferTxParamsSanity sample_runtime sample_params = Inr ()"
    using sample_params_valid [of None] by (simp add: sample_params_def)
  have h: "is_hex64 (strip_k (js ''k:'' @ replicate 64 0x61))"
    using k sample_is_hex64 by simp
  have h0: "is_hex64 (strip_k (replicate 64 0x61))"
    using s [of 64 "[]"] sample_is_hex64 by simp
  have z: "checkTransferTxParamsSanity sample_runtime
             (sample_params\<lparr>recipient := replicate 64 0x30\<rparr>) = Inr ()"
    using recipient_validation [of sample_runtime sample_params] v by simp
  have b1: "\<not> is_hex64 (strip_k (replicate 63 0x61))"
    using s [of 63 "[]"] by (simp add: is_hex64_def)
  have b2: "\<not> is_hex64 (strip_k (replicate 65 0x61))"
    using s [of 65 "[]"] by (simp add: is_hex64_def)
  have b3: "\<not> is_hex64 (strip_k (replicate 63 0x61 @ js ''g''))"
    using s [of 63 "js ''g''"] by (simp add: is_hex64_def is_hex_digit_def js_def)
  show ?thesis
    using h v b1 b2 b3 h0 z
      recipient_validation [of sample_runtime "sample_params\<lparr>recipient := replicate 64 0x61\<rparr>"]
      recipient_validation [of sample_runtime "sample_params\<lparr>recipient := replicate 63 0x61\<rparr>"]
      recipient_validation [of sample_runtime "sample_params\<lparr>recipient := replicate 65 0x61\<rparr>"]
      recipient_validation [of sample_runtime
        "sample_params\<lparr>recipient := replicate 63 0x61 @ js ''g''\<rparr>"]
    by simp
qed

section \<open>Properties of the digest identifier\<close>

lemma replace_all_Nil: "replace_all c r [] = []"
  by (simp add: replace_all_def)

lemma replace_all_Cons:
  "replace_all c r (u # s) = (if u = c then r else [u]) @ replace_all c r s"
  by (simp add: replace_all_def)

lemma replace_all_append: "replace_all c r (s @ t) = replace_all c r s @ replace_all c r t"
  by (simp add: replace_all_def)

lemma base64url_alphabet_map:
  "base64url_alphabet
     = map (\<lambda>u. if u = 0x2B then 0x2D else if u = 0x2F then 0x5F else u) base64_alphabet"
  by (simp add: base64url_alphabet_def base64_alphabet_def js_def)

lemma length_base64_alphabet: "length base64_alphabet = 64"
  by (simp add: base64_alphabet_def js_def)

lemma length_base64url_alphabet: "length base64url_alphabet = 64"
  by (simp add: base64url_alphabet_def js_def)

lemma base64_alphabet_no_pad: "0x3D \<notin> set base64_alphabet"
  by (simp add: base64_alphabet_def js_def)

lemma base64_char_replaced:
  assumes "n < 64"
  shows "replace_all 0x3D [] (replace_all 0x2F (js ''_'') (replace_all 0x2B (js ''-'')
           [base64_char n])) = [base64url_char n]"
proof -
  have m: "base64_char n \<in> set base64_alphabet"
    using assms by (simp add: base64_char_def length_base64_alphabet)
  then have p: "base64_char n \<noteq> 0x3D"
    using base64_alphabet_no_pad by metis
  have "base64url_char n =
          (if base64_char n = 0x2B then 0x2D
           else if base64_char n = 0x2F then 0x5F else base64_char n)"
    using assms
    by (simp add: base64url_char_def base64_char_def base64url_alphabet_map
        length_base64_alphabet)
  with p show ?thesis
    by (simp add: replace_all_Cons replace_all_Nil js_def)
qed

lemma replace_chain_Cons:
  "replace_all 0x3D [] (replace_all 0x2F x (replace_all 0x2B y (u # s)))
     = replace_all 0x3D [] (replace_all 0x2F x (replace_all 0x2B y [u]))
       @ replace_all 0x3D [] (replace_all 0x2F x (replace_all 0x2B y s))"
proof -
  have "u # s = [u] @ s" by simp
  then show ?thesis
    by (simp only: replace_all_append)
qed

lemma hash_identifier_Cons:
  "n < 64 \<Longrightarrow>
     replace_all 0x3D [] (replace_all 0x2F (js ''_'') (replace_all 0x2B (js ''-'')
       (base64_char n # s)))
     = base64url_char n
       # replace_all 0x3D [] (replace_all 0x2F (js ''_'') (replace_all 0x2B (js ''-'') s))"
  by (subst replace_chain_Cons) (simp add: base64_char_replaced)

lemma hash_identifier_pad:
  "replace_all 0x3D [] (replace_all 0x2F (js ''_'') (replace_all 0x2B (js ''-'') (0x3D # s)))
     = replace_all 0x3D [] (replace_all 0x2F (js ''_'') (replace_all 0x2B (js ''-'') s))"
  by (simp add: replace_all_Cons replace_all_Nil replace_all_append js_def)

lemma sextet_bounds:
  fixes a b c :: byte
  shows "unat a div 4 < 64" "(unat a mod 4) * 16 + unat b div 16 < 64"
    "(unat b mod 16) * 4 + unat c div 64 < 64" "unat c mod 64 < 64"
    "(unat b mod 16) * 4 < 64" "(unat a mod 4) * 16 < 64"
proof -
  have "unat a < 256" "unat b < 256" "unat c < 256"
    using unsigned_less [of a, where ?'a = nat] unsigned_less [of b, where ?'a = nat]
      unsigned_less [of c, where ?'a = nat]
    by simp_all
  then show "unat a div 4 < 64" "(unat a mod 4) * 16 + unat b div 16 < 64"
    "(unat b mod 16) * 4 + unat c div 64 < 64" "unat c mod 64 < 64"
    "(unat b mod 16) * 4 < 64" "(unat a mod 4) * 16 < 64"
    by simp_all
qed

lemma hash_identifier_base64url: "hash_identifier bs = base64url_nopad bs"
proof (induction bs rule: Buffer_toString_base64.induct)
  case (1 a b c rest)
  then show ?case
    by (simp add: hash_identifier_def hash_identifier_Cons sextet_bounds)
next
  case (2 a b)
  show ?case
    by (simp add: hash_identifier_def hash_identifier_Cons hash_identifier_pad sextet_bounds
        replace_all_Nil)
next
  case (3 a)
  show ?case
    by (simp add: hash_identifier_def hash_identifier_Cons hash_identifier_pad sextet_bounds
        replace_all_Nil)
next
  case 4
  show ?case
    by (simp add: hash_identifier_def replace_all_Nil)
qed

lemma length_base64url_nopad: "length (base64url_nopad bs) = (4 * length bs + 2) div 3"
  by (induction bs rule: base64url_nopad.induct) simp_all

lemma base64url_char_mem: "n < 64 \<Longrightarrow> base64url_char n \<in> set base64url_alphabet"
  by (simp add: base64url_char_def length_base64url_alphabet)

lemma base64url_nopad_alphabet: "set (base64url_nopad bs) \<subseteq> set base64url_alphabet"
  by (induction bs rule: base64url_nopad.induct)
    (simp_all add: base64url_char_mem sextet_bounds)

section \<open>Properties of the transfer signing\<close>

lemma signTxInternal_unfold:
  assumes "checkTransferTxParamsSanity rt (heap w a) = Inr ()"
    and "recipient_chainId (heap w a) = Some rc"
  shows "signTxInternal rt bip32Path a ty w =
     (case sendChunks rt INS_SIGN_TRANSFER_TX
             (prepareChunks rt bip32Path
                (transfer_payload (tx_number ty) (transfer_fields rt (heap w a) rc))) w of
        (Inl e, w1) \<Rightarrow> (Inl (processErrorResponse rt e), w1)
      | (Inr signatureResponse, w1) \<Rightarrow>
          (case getAddressAndPubKey rt bip32Path False w1 of
             (Inl e, w2) \<Rightarrow> (Inl (processErrorResponse rt e), w2)
           | (Inr pk, w2) \<Rightarrow>
               (case buildTransferJson (heap w2 a) (tx_number ty)
                       (Buffer_toString_hex (pubkey pk))
                       (case creationTime (heap w a) of None \<Rightarrow> getTime rt div 1000
                        | Some c \<Rightarrow> c) of
                  Inl e \<Rightarrow> (Inl (processErrorResponse rt e), w2)
                | Inr json \<Rightarrow>
                    (Inr \<lparr>signature = signatureResponse, cmd = json,
                          hash = hash_identifier (blake2b rt 32 (Buffer_from json))\<rparr>, w2))))"
  unfolding signTxInternal_def Let_def transfer_payload_def transfer_fields_def
  using assms by simp

lemma signTxInternal_invalid:
  "checkTransferTxParamsSanity rt (heap w a) = Inl e \<Longrightarrow>
     signTxInternal rt bip32Path a ty w = (Inl e, w)"
  by (simp add: signTxInternal_def)

lemma signTxInternal_undefined:
  "checkTransferTxParamsSanity rt (heap w a) = Inr () \<Longrightarrow>
   recipient_chainId (heap w a) = None \<Longrightarrow>
     signTxInternal rt bip32Path a ty w = (Inl UndefinedDereference, w)"
  by (simp add: signTxInternal_def Let_def)

lemma signTxInternal_hash:
  assumes "signTxInternal rt bip32Path a ty w = (Inr res, w')"
  shows "hash res = hash_identifier (blake2b rt 32 (Buffer_from (cmd res)))"
proof (cases "checkTransferTxParamsSanity rt (heap w a)")
  case (Inl e)
  with assms show ?thesis by (simp add: signTxInternal_invalid)
next
  case (Inr u)
  show ?thesis
  proof (cases "recipient_chainId (heap w a)")
    case None
    with Inr assms show ?thesis by (simp add: signTxInternal_undefined)
  next
    case (Some rc)
    show ?thesis
      using assms unfolding signTxInternal_unfold [OF _ Some, of rt, simplified Inr, simplified]
      by (auto split: prod.splits sum.splits)
  qed
qed

section \<open>The sample request, run\<close>

lemma length_fit_chars: "length (fit_chars room cs) \<le> room"
proof (induction cs arbitrary: room)
  case Nil
  then show ?case by simp
next
  case (Cons c cs)
  show ?case
    using Cons [of "room - length c"] by auto
qed

lemma length_textPayload: "length (textPayload txt) = 1 + length txt"
  using length_fit_chars [of "length txt" "utf8_chars txt"]
  by (simp add: textPayload_def Buffer_write_def Let_def)

lemma slices_one: "bs \<noteq> [] \<Longrightarrow> length bs \<le> n \<Longrightarrow> slices n bs = [bs]"
  by (subst slices.simps, subst slices.simps) (cases n; auto)

lemma sample_convertDecimal: "convertDecimal sample_runtime (Str (js ''10'')) = js ''10.0''"
proof -
  have "0x2E \<notin> set (js ''10'')" "js ''10'' @ js ''.0'' = js ''10.0''"
    by (simp_all add: js_def)
  then show ?thesis
    by (simp add: convertDecimal_def sample_runtime_def sample_number_10)
qed

lemma Number_toString_0: "Number_toString 0 = js ''0''"
  by (simp add: Number_toString_def nat_toString.simps digit_unit_def js_def)

lemma Number_toString_sample: "Number_toString 1700000000 = js ''1700000000''"
  by (simp add: Number_toString_def nat_toString.simps digit_unit_def js_def)

lemma sample_fields:
  "transfer_fields sample_runtime (sample_params\<lparr>recipient_chainId := Some 0\<rparr>) 0 =
     [replicate 64 0x61, js ''0'', js ''testnet'', js ''10.0'', [], [], js ''1.0e-6'',
      js ''2300'', js ''1700000000'', js ''0'', [], js ''600'']"
  using sample_recipient
  by (simp add: transfer_fields_def sample_convertDecimal Number_toString_0
      Number_toString_sample sample_params_def)


lemma sample_payload_length: "length sample_payload = 113"
  by (simp add: sample_payload_def transfer_payload_def length_textPayload length_js)

lemma sample_chunks:
  "prepareChunks sample_runtime sample_path sample_payload = [Buffer_from sample_path, sample_payload]"
proof -
  have "sample_payload \<noteq> []" "length sample_payload \<le> 250"
    using sample_payload_length by auto
  then show ?thesis
    by (simp add: sample_runtime_def sample_prepareChunks_def slices_one)
qed

lemma sample_sendChunks:
  "sendChunks sample_runtime ins [c1, c2] \<lparr>heap = h, device = 0, exchanges = []\<rparr> =
    (Inr sample_signature, \<lparr>heap = h, device = 2, exchanges = [(SignSendChunk ins 1 2 (Some c1), Inr []), (SignSendChunk ins 2 2 (Some c2), Inr sample_signature)]\<rparr>)"
  by (simp add: sendChunks_def signSendChunk_def exchange_def sample_runtime_def chunk_loop.simps)

lemma sample_getAddress:
  "getAddressAndPubKey sample_runtime sample_path False \<lparr>heap = h, device = 2, exchanges = xs\<rparr> =
    (Inr \<lparr>pubkey = sample_pubkey, address = js ''k:11''\<rparr>, \<lparr>heap = h, device = 3, exchanges = xs @ [(address_request sample_runtime sample_path, Inr (sample_pubkey @ [0x6B, 0x3A, 0x31, 0x31]))]\<rparr>)"
  by (simp add: getAddressAndPubKey_def exchange_def sample_runtime_def address_request_def readBytes_def PUBKEYLEN_def sample_pubkey_def js_def)


lemma hex_of_11: "Buffer_toString_hex (replicate n 0x11) = replicate (2 * n) 0x31"
  by (induction n) (simp_all add: Buffer_toString_hex_def hex_char_def js_def)

lemma sample_hex: "Buffer_toString_hex sample_pubkey = replicate 64 0x31"
  by (simp add: sample_pubkey_def hex_of_11)

lemma sample_json:
  \<open>buildTransferJson (sample_params\<lparr>recipient_chainId := Some 0\<rparr>) 0 (replicate 64 0x31)
      1700000000 = Inr sample_document\<close>
proof -
  have r: "strip_k (recipient (sample_params\<lparr>recipient_chainId := Some 0\<rparr>)) = replicate 64 0x61"
    using sample_recipient by simp
  show ?thesis
    unfolding buildTransferJson_def r Let_def
    by (simp add: sample_document_def sample_params_def Number_toString_sample
      Number_toString_0 bq_def js_def)
qed

lemma sample_transfer_run:
  "signTransferTx sample_runtime sample_path 0 sample_world =
     (Inr \<lparr>signature = sample_signature, cmd = sample_document,
           hash = hash_identifier (sample_digest 32 (Buffer_from sample_document))\<rparr>,
      \<lparr>heap = (\<lambda>a. sample_params)(0 := sample_params\<lparr>recipient_chainId := Some 0\<rparr>),
       device = 3,
       exchanges =
         [(SignSendChunk INS_SIGN_TRANSFER_TX 1 2 (Some (Buffer_from sample_path)), Inr []),
          (SignSendChunk INS_SIGN_TRANSFER_TX 2 2 (Some sample_payload), Inr sample_signature),
          (address_request sample_runtime sample_path,
           Inr (sample_pubkey @ [0x6B, 0x3A, 0x31, 0x31]))]\<rparr>)"
proof -
  let ?h = "(\<lambda>a. sample_params)(0 := sample_params\<lparr>recipient_chainId := Some 0\<rparr>)"
  let ?w0 = "\<lparr>heap = ?h, device = 0::nat, exchanges = []\<rparr>"
  have v: "checkTransferTxParamsSanity sample_runtime (heap ?w0 0) = Inr ()"
    using sample_params_valid [of "Some 0"] by simp
  have rc: "recipient_chainId (heap ?w0 0) = Some 0" by simp
  have p: "transfer_payload (tx_number TRANSFER) (transfer_fields sample_runtime (heap ?w0 0) 0)
             = sample_payload"
    using sample_fields by (simp add: sample_payload_def)
  have b: "blake2b sample_runtime = sample_digest"
    by (simp add: sample_runtime_def)
  have c: "creationTime (heap ?w0 0) = Some 1700000000"
    by (simp add: sample_params_def)
  have "signTransferTx sample_runtime sample_path 0 sample_world
          = signTxInternal sample_runtime sample_path 0 TRANSFER ?w0"
    by (simp add: signTransferTx_def sample_world_def Let_def)
  also have "\<dots> = (Inr \<lparr>signature = sample_signature, cmd = sample_document,
           hash = hash_identifier (sample_digest 32 (Buffer_from sample_document))\<rparr>,
      \<lparr>heap = ?h, device = 3,
       exchanges =
         [(SignSendChunk INS_SIGN_TRANSFER_TX 1 2 (Some (Buffer_from sample_path)), Inr []),
          (SignSendChunk INS_SIGN_TRANSFER_TX 2 2 (Some sample_payload), Inr sample_signature),
          (address_request sample_runtime sample_path,
           Inr (sample_pubkey @ [0x6B, 0x3A, 0x31, 0x31]))]\<rparr>)"
    unfolding signTxInternal_unfold [OF v rc] p sample_chunks sample_sendChunks
    using c by (simp add: sample_getAddress sample_hex sample_json b)
  finally show ?thesis .
qed

section \<open>The claims about the transfer signing\<close>

lemma transfer_hash:
  assumes "signTransferTx rt bip32Path a w = (Inr res, w')
           \<or> signTransferCreateTx rt bip32Path a w = (Inr res, w')
           \<or> signTransferCrossChainTx rt bip32Path a w = (Inr res, w')"
  shows "hash res = hash_identifier (blake2b rt 32 (Buffer_from (cmd res)))"
  using assms
  by (auto simp: signTransferTx_def signTransferCreateTx_def signTransferCrossChainTx_def
      Let_def dest: signTxInternal_hash split: if_splits)

lemma length_sample_digest: "length (sample_digest n bs) = n"
  by (simp add: sample_digest_def)

text \<open>
  C5: the hash identifier returned by a transfer signing is the base64 text of the 32-byte
  digest of the bytes of the command document, with \<open>+\<close> replaced by \<open>-\<close>, \<open>/\<close> by \<open>_\<close> and
  every \<open>=\<close> removed; that is the unpadded URL-safe base64 of the digest, and for a digest
  of 32 bytes it has 43 characters, all of the URL-safe alphabet.
\<close>

theorem hash_identifier_of_document:
  assumes "signTransferTx rt bip32Path a w = (Inr res, w')
           \<or> signTransferCreateTx rt bip32Path a w = (Inr res, w')
           \<or> signTransferCrossChainTx rt bip32Path a w = (Inr res, w')"
  shows "hash res =
           replace_all 0x3D []
             (replace_all 0x2F (js ''_'')
                (replace_all 0x2B (js ''-'')
                   (Buffer_toString_base64 (blake2b rt 32 (Buffer_from (cmd res))))))
         \<and> hash res = base64url_nopad (blake2b rt 32 (Buffer_from (cmd res)))
         \<and> (length (blake2b rt 32 (Buffer_from (cmd res))) = 32
              \<longrightarrow> length (hash res) = 43 \<and> set (hash res) \<subseteq> set base64url_alphabet)"
proof -
  have h: "hash res = hash_identifier (blake2b rt 32 (Buffer_from (cmd res)))"
    using assms by (rule transfer_hash)
  then have u: "hash res = base64url_nopad (blake2b rt 32 (Buffer_from (cmd res)))"
    by (simp add: hash_identifier_base64url)
  have "length (hash res) = 43 \<and> set (hash res) \<subseteq> set base64url_alphabet"
    if "length (blake2b rt 32 (Buffer_from (cmd res))) = 32"
    using that base64url_nopad_alphabet [of "blake2b rt 32 (Buffer_from (cmd res))"]
    by (simp add: u length_base64url_nopad)
  with h u show ?thesis
    by (simp add: hash_identifier_def)
qed

theorem hash_identifier_of_document_witness:
  "cmd (projr (fst (signTransferTx sample_runtime sample_path 0 sample_world))) = sample_document
   \<and> length (blake2b sample_runtime 32 (Buffer_from sample_document)) = 32
   \<and> hash (projr (fst (signTransferTx sample_runtime sample_path 0 sample_world)))
       = base64url_nopad (blake2b sample_runtime 32 (Buffer_from sample_document))
   \<and> length (hash (projr (fst (signTransferTx sample_runtime sample_path 0 sample_world)))) = 43"
proof -
  have b: "blake2b sample_runtime = sample_digest"
    by (simp add: sample_runtime_def)
  show ?thesis
    using hash_identifier_of_document [OF disjI1, OF sample_transfer_run]
    by (auto simp: sample_transfer_run b length_sample_digest)
qed

text \<open>
  C1, at the sample request (amount \<open>10\<close>; gas price, gas limit, time to live and nonce
  omitted), signed as a plain transfer: the payload sent as the second chunk carries the
  normalised fields \<open>10.0\<close>, \<open>1.0e-6\<close>, \<open>2300\<close>, \<open>600\<close> and the empty nonce, but the command
  document returned is built from the fields as given: it has the amount \<open>10\<close> and the
  text \<open>undefined\<close> for each omitted field, and so differs from the document of the
  normalised fields.
\<close>

theorem transfer_document_not_normalized:
  "cmd (projr (fst (signTransferTx sample_runtime sample_path 0 sample_world))) = sample_document
   \<and> map fst (exchanges (snd (signTransferTx sample_runtime sample_path 0 sample_world))) ! 1
       = SignSendChunk INS_SIGN_TRANSFER_TX 2 2 (Some sample_payload)
   \<and> buildTransferJson
         (normalized sample_runtime (sample_params\<lparr>recipient_chainId := Some 0\<rparr>)) 0
         (Buffer_toString_hex sample_pubkey) 1700000000
       \<noteq> Inr sample_document"
proof -
  have r: "strip_k (recipient (normalized sample_runtime
             (sample_params\<lparr>recipient_chainId := Some 0\<rparr>))) = replicate 64 0x61"
    using sample_recipient by (simp add: normalized_def)
  have a: "amount (normalized sample_runtime (sample_params\<lparr>recipient_chainId := Some 0\<rparr>))
             = js ''10.0''"
    using sample_convertDecimal by (simp add: normalized_def sample_params_def)
  have "buildTransferJson
         (normalized sample_runtime (sample_params\<lparr>recipient_chainId := Some 0\<rparr>)) 0
         (Buffer_toString_hex sample_pubkey) 1700000000
       \<noteq> Inr sample_document"
    unfolding buildTransferJson_def r a Let_def sample_hex
    by (simp add: sample_document_def normalized_def sample_params_def bq_def js_def)
  then show ?thesis
    by (simp add: sample_transfer_run)
qed

section \<open>The claims about the preconditions\<close>

lemma chunk_requests_not_Nil: "chunk_requests ins chunks \<noteq> []"
  by (simp add: chunk_requests_def)

lemma sendChunks_exchanges:
  assumes "sendChunks rt ins chunks w = (r, w')"
  shows "\<exists>xs. exchanges w' = exchanges w @ xs \<and> heap w' = heap w \<and> xs \<noteq> []
           \<and> length xs \<le> length (chunk_requests ins chunks)
           \<and> map fst xs = take (length xs) (chunk_requests ins chunks)
           \<and> list_all answered (butlast xs)
           \<and> snd (last xs) = r
           \<and> (\<not> isl r \<longrightarrow> length xs = length (chunk_requests ins chunks))"
proof -
  have "dispatch rt (chunk_requests ins chunks) r w = (r, w')"
    using assms sendChunks_dispatch [of rt ins chunks w r] by simp
  from dispatch_exchanges [OF this] obtain xs where xs:
    "exchanges w' = exchanges w @ xs" "heap w' = heap w"
    "length xs \<le> length (chunk_requests ins chunks)"
    "map fst xs = take (length xs) (chunk_requests ins chunks)"
    "list_all answered (butlast xs)"
    "if xs = [] then r = r \<and> chunk_requests ins chunks = [] else snd (last xs) = r"
    "\<not> isl r \<longrightarrow> length xs = length (chunk_requests ins chunks)"
    by blast
  from xs(6) have "xs \<noteq> []"
    using chunk_requests_not_Nil [of ins chunks] by (cases "xs = []") simp_all
  with xs show ?thesis
    by (intro exI [of _ xs]) simp
qed

lemma sendChunks_first:
  assumes "sendChunks rt ins chunks w = (r, w')"
  shows "\<exists>r1 xs. exchanges w' = exchanges w @ (hd (chunk_requests ins chunks), r1) # xs"
proof -
  from sendChunks_exchanges [OF assms] obtain xs where xs:
    "exchanges w' = exchanges w @ xs" "xs \<noteq> []"
    "map fst xs = take (length xs) (chunk_requests ins chunks)"
    by blast
  then obtain x xs' where c: "xs = x # xs'"
    by (cases xs) auto
  with xs(3) have "fst x = hd (chunk_requests ins chunks)"
    using chunk_requests_not_Nil [of ins chunks]
    by (cases "chunk_requests ins chunks") auto
  with xs(1) c show ?thesis
    by (intro exI [of _ "snd x"] exI [of _ xs']) (cases x, simp)
qed

text \<open>
  C7: a cross-chain signing whose recipient chain id equals (\<open>==\<close>) the sender chain id
  fails with the \<open>TypeError\<close> of the source, and leaves the world as it was: no request
  has been made, so nothing was encoded for the device and no packet was sent.
\<close>

theorem cross_chain_same_chain_rejected:
  assumes "loose_eq rt (chainId (heap w params)) (recipient_chainId (heap w params))"
  shows "signTransferCrossChainTx rt bip32Path params w =
           (Inl (TypeError
                   (js ''Recipient chainId is same as sender's in a cross-chain transfer'')),
            w)"
  using assms by (simp add: signTransferCrossChainTx_def)

theorem cross_chain_same_chain_rejected_witness:
  "loose_eq sample_runtime (Str (js ''0'')) (Some 0)
   \<and> signTransferCrossChainTx sample_runtime sample_path 0
        \<lparr>heap = (\<lambda>a. sample_params\<lparr>chainId := Str (js ''0''), recipient_chainId := Some 0\<rparr>),
         device = 0, exchanges = []\<rparr>
       = (Inl (TypeError
                 (js ''Recipient chainId is same as sender's in a cross-chain transfer'')),
          \<lparr>heap = (\<lambda>a. sample_params\<lparr>chainId := Str (js ''0''), recipient_chainId := Some 0\<rparr>),
           device = 0, exchanges = []\<rparr>)"
proof -
  have l: "loose_eq sample_runtime (Str (js ''0'')) (Some 0)"
    by (simp add: sample_runtime_def sample_number_0)
  show ?thesis
    using l cross_chain_same_chain_rejected [of sample_runtime
        "\<lparr>heap = (\<lambda>a. sample_params\<lparr>chainId := Str (js ''0''), recipient_chainId := Some 0\<rparr>),
          device = 0, exchanges = []\<rparr>" 0 sample_path]
    by simp
qed

text \<open>
  C8: \<open>signHash\<close> fails without having made any request if and only if the decoded hash
  is not 32 bytes long, and then it fails with the \<open>TypeError\<close> of the source; for a decoded
  hash of 32 bytes the first chunk of the hash is requested.
\<close>

theorem signHash_precondition:
  "((isl (fst (signHash rt bip32Path h w))
      \<and> exchanges (snd (signHash rt bip32Path h w)) = exchanges w)
     = (length (rawHash rt h) \<noteq> 32))
   \<and> (length (rawHash rt h) \<noteq> 32 \<longrightarrow>
        signHash rt bip32Path h w = (Inl (TypeError (js ''Hash is not 32 bytes'')), w))
   \<and> (length (rawHash rt h) = 32 \<longrightarrow>
        (\<exists>r xs. exchanges (snd (signHash rt bip32Path h w)) =
           exchanges w
           @ (hd (chunk_requests INS_SIGN_HASH (prepareChunks rt bip32Path (rawHash rt h))), r)
             # xs))"
proof (cases "length (rawHash rt h) = 32")
  case False
  then show ?thesis
    by (simp add: signHash_def)
next
  case True
  obtain r w' where s:
    "sendChunks rt INS_SIGN_HASH (prepareChunks rt bip32Path (rawHash rt h)) w = (r, w')"
    by (cases "sendChunks rt INS_SIGN_HASH (prepareChunks rt bip32Path (rawHash rt h)) w")
  have e: "exchanges (snd (signHash rt bip32Path h w)) = exchanges w'"
    using True s by (simp add: signHash_def Let_def split: sum.splits)
  from sendChunks_first [OF s] obtain r1 xs where
    "exchanges w' =
       exchanges w
       @ (hd (chunk_requests INS_SIGN_HASH (prepareChunks rt bip32Path (rawHash rt h))), r1) # xs"
    by blast
  with e True show ?thesis
    by auto
qed

lemma sample_from_hex_aa: "sample_from_hex (replicate (2 * n) 0x61) = replicate n 0xAA"
  by (induction n) (simp_all add: hex_value_def)

theorem signHash_precondition_witness:
  "length (rawHash sample_runtime (HashString (replicate 64 0x61))) = 32
   \<and> exchanges (snd (signHash sample_runtime sample_path (HashString (replicate 64 0x61))
                       sample_world)) \<noteq> exchanges sample_world
   \<and> length (rawHash sample_runtime (HashBytes [1, 2, 3])) \<noteq> 32
   \<and> signHash sample_runtime sample_path (HashBytes [1, 2, 3]) sample_world
       = (Inl (TypeError (js ''Hash is not 32 bytes'')), sample_world)"
proof -
  have "rawHash sample_runtime (HashString (replicate 64 0x61)) = replicate 32 0xAA"
    using sample_from_hex_aa [of 32] by (simp add: rawHash_def sample_runtime_def)
  then have a: "length (rawHash sample_runtime (HashString (replicate 64 0x61))) = 32"
    by simp
  have b: "length (rawHash sample_runtime (HashBytes [1, 2, 3])) \<noteq> 32"
    by (simp add: rawHash_def)
  show ?thesis
    using a b
      signHash_precondition [of sample_runtime sample_path "HashString (replicate 64 0x61)"
        sample_world]
      signHash_precondition [of sample_runtime sample_path "HashBytes [1, 2, 3]" sample_world]
    by auto
qed



section \<open>The effect of the signing operations on the world\<close>

lemma getAddressAndPubKey_effect:
  assumes "getAddressAndPubKey rt bip32Path False w = (r, w')"
  shows "heap w' = heap w
         \<and> (\<exists>reply. exchanges w' = exchanges w @ [(address_request rt bip32Path, reply)])"
proof -
  obtain reply w1 where e: "exchange rt (address_request rt bip32Path) w = (reply, w1)"
    by (cases "exchange rt (address_request rt bip32Path) w")
  then have "w' = w1"
    using assms
    by (auto simp: getAddressAndPubKey_def address_request_def Let_def
        split: sum.splits prod.splits)
  with exchange_effect [OF e] show ?thesis by auto
qed

lemma sendChunks_in_order:
  assumes "sendChunks rt ins chunks w = (r, w')" and "chunks \<noteq> []"
  shows "\<exists>xs. exchanges w' = exchanges w @ xs \<and> heap w' = heap w
           \<and> 1 \<le> length xs \<and> length xs \<le> length chunks
           \<and> map fst xs = map (chunk_request ins chunks) [0..<length xs]
           \<and> list_all answered (butlast xs)
           \<and> snd (last xs) = r
           \<and> (\<not> isl r \<longrightarrow> length xs = length chunks)"
proof -
  have c: "chunk_requests ins chunks = map (chunk_request ins chunks) [0..<length chunks]"
    using assms(2) by (simp add: chunk_requests_def)
  from sendChunks_exchanges [OF assms(1)] obtain xs where xs:
    "exchanges w' = exchanges w @ xs" "heap w' = heap w" "xs \<noteq> []"
    "length xs \<le> length (chunk_requests ins chunks)"
    "map fst xs = take (length xs) (chunk_requests ins chunks)"
    "list_all answered (butlast xs)"
    "snd (last xs) = r"
    "\<not> isl r \<longrightarrow> length xs = length (chunk_requests ins chunks)"
    by blast
  have l: "length xs \<le> length chunks" using xs(4) c by simp
  then have "take (length xs) (chunk_requests ins chunks)
               = map (chunk_request ins chunks) [0..<length xs]"
    unfolding c by (simp add: take_map min_def)
  with xs l c show ?thesis
    by (intro exI [of _ xs]) (simp add: Suc_le_eq)
qed

lemma transfer_fields_recipient_chainId:
  "transfer_fields rt (p\<lparr>recipient_chainId := x\<rparr>) rc = transfer_fields rt p rc"
  by (simp add: transfer_fields_def)

lemma signTxInternal_heap: "heap (snd (signTxInternal rt bip32Path a ty w)) = heap w"
proof (cases "checkTransferTxParamsSanity rt (heap w a)")
  case (Inl e)
  then show ?thesis by (simp add: signTxInternal_invalid)
next
  case (Inr u)
  show ?thesis
  proof (cases "recipient_chainId (heap w a)")
    case None
    with Inr show ?thesis by (simp add: signTxInternal_undefined)
  next
    case (Some rc)
    have v: "checkTransferTxParamsSanity rt (heap w a) = Inr ()" using Inr by simp
    show ?thesis
      unfolding signTxInternal_unfold [OF v Some]
      by (auto split: prod.splits sum.splits
          dest!: getAddressAndPubKey_effect sendChunks_exchanges)
  qed
qed

lemma signTxInternal_dispatched:
  assumes v: "checkTransferTxParamsSanity rt (heap w a) = Inr ()"
    and rc: "recipient_chainId (heap w a) = Some rc"
    and c: "chunks = prepareChunks rt bip32Path
                       (transfer_payload (tx_number ty) (transfer_fields rt (heap w a) rc))"
    and n: "chunks \<noteq> []"
  shows "dispatched_in_order INS_SIGN_TRANSFER_TX chunks [address_request rt bip32Path] w
           (signTxInternal rt bip32Path a ty w)"
proof -
  obtain r w1 where s: "sendChunks rt INS_SIGN_TRANSFER_TX chunks w = (r, w1)"
    by (cases "sendChunks rt INS_SIGN_TRANSFER_TX chunks w")
  from sendChunks_in_order [OF s n] obtain xs where xs:
    "exchanges w1 = exchanges w @ xs" "1 \<le> length xs" "length xs \<le> length chunks"
    "map fst xs = map (chunk_request INS_SIGN_TRANSFER_TX chunks) [0..<length xs]"
    "list_all answered (butlast xs)" "snd (last xs) = r"
    "\<not> isl r \<longrightarrow> length xs = length chunks"
    by blast
  show ?thesis
  proof (cases r)
    case (Inl e)
    then have "signTxInternal rt bip32Path a ty w = (Inl (processErrorResponse rt e), w1)"
      using s unfolding signTxInternal_unfold [OF v rc] c [symmetric] by simp
    moreover have "\<not> answered (last xs)" using xs(6) Inl by (simp add: answered_def)
    ultimately show ?thesis
      unfolding dispatched_in_order_def using xs
      by (intro exI [of _ xs] exI [of _ "[]"]) simp
  next
    case (Inr sr)
    obtain g w2 where g: "getAddressAndPubKey rt bip32Path False w1 = (g, w2)"
      by (cases "getAddressAndPubKey rt bip32Path False w1")
    from getAddressAndPubKey_effect [OF g] obtain reply where
      w2: "exchanges w2 = exchanges w1 @ [(address_request rt bip32Path, reply)]"
      by blast
    have a: "answered (last xs)" using xs(6) Inr by (simp add: answered_def)
    have l: "length xs = length chunks" using xs(7) Inr by simp
    have o: "snd (signTxInternal rt bip32Path a ty w) = w2"
      "\<forall>res. fst (signTxInternal rt bip32Path a ty w) = Inr res \<longrightarrow> signature res = sr"
      using s g Inr unfolding signTxInternal_unfold [OF v rc] c [symmetric]
      by (auto split: sum.splits)
    show ?thesis
      unfolding dispatched_in_order_def
      using xs a l o w2 Inr
      by (intro exI [of _ xs] exI [of _ "[(address_request rt bip32Path, reply)]"]) auto
  qed
qed

section \<open>The claims about the chunked transfer and the parameter object\<close>

lemma signTransferTx_world:
  "signTransferTx rt bip32Path a w =
     signTxInternal rt bip32Path a TRANSFER
       (w\<lparr>heap := (heap w)(a := (heap w a)\<lparr>recipient_chainId := Some 0\<rparr>)\<rparr>)"
  "signTransferCreateTx rt bip32Path a w =
     signTxInternal rt bip32Path a TRANSFER_CREATE
       (w\<lparr>heap := (heap w)(a := (heap w a)\<lparr>recipient_chainId := Some 0\<rparr>)\<rparr>)"
  by (simp_all add: signTransferTx_def signTransferCreateTx_def Let_def)

lemma dispatched_in_order_heap:
  "dispatched_in_order ins chunks later (w\<lparr>heap := h\<rparr>) out
     = dispatched_in_order ins chunks later w out"
  by (simp add: dispatched_in_order_def)

lemma Number_toString_1: "Number_toString 1 = js ''1''"
  by (simp add: Number_toString_def nat_toString.simps digit_unit_def js_def)

lemma sample_cross_chain_valid:
  "checkTransferTxParamsSanity sample_runtime (sample_params\<lparr>recipient_chainId := Some 1\<rparr>)
     = Inr ()"
  by (rule sample_params_valid) (simp add: Number_toString_1 length_js)

lemma sign_dispatched:
  assumes n: "chunks \<noteq> []"
  shows "dispatched_in_order ins chunks [] w
           (case sendChunks rt ins chunks w of
              (Inl e, w') \<Rightarrow> (Inl (processErrorResponse rt e), w')
            | (Inr signatureResponse, w') \<Rightarrow> (Inr \<lparr>signature = signatureResponse\<rparr>, w'))"
proof -
  obtain r w1 where s: "sendChunks rt ins chunks w = (r, w1)"
    by (cases "sendChunks rt ins chunks w")
  from sendChunks_in_order [OF s n] obtain xs where xs:
    "exchanges w1 = exchanges w @ xs" "1 \<le> length xs" "length xs \<le> length chunks"
    "map fst xs = map (chunk_request ins chunks) [0..<length xs]"
    "list_all answered (butlast xs)" "snd (last xs) = r"
    "\<not> isl r \<longrightarrow> length xs = length chunks"
    by blast
  show ?thesis
    unfolding dispatched_in_order_def s
    using xs
    by (intro exI [of _ xs] exI [of _ "[]"]) (cases r; simp add: answered_def)
qed

text \<open>
  C9: for every signing operation, when the payload is split into \<open>N \<ge> 1\<close> chunks (the
  path descriptor always makes a chunk), the collaborator is called with the chunks in
  order, with the indices 1, 2, ... and the count \<open>N\<close> on every call; a call that fails
  ends the sequence and the operation; the signature is the answer to the \<open>N\<close>th call.
\<close>

theorem chunks_dispatched_in_order:
  assumes "\<forall>blob. prepareChunks rt bip32Path blob \<noteq> []"
  shows "dispatched_in_order INS_SIGN (prepareChunks rt bip32Path blob) [] w
           (sign rt bip32Path blob w)
   \<and> (length (rawHash rt h) = 32 \<longrightarrow>
        dispatched_in_order INS_SIGN_HASH (prepareChunks rt bip32Path (rawHash rt h)) [] w
          (signHash rt bip32Path h w))
   \<and> (checkTransferTxParamsSanity rt ((heap w a)\<lparr>recipient_chainId := Some 0\<rparr>) = Inr () \<longrightarrow>
        dispatched_in_order INS_SIGN_TRANSFER_TX
          (prepareChunks rt bip32Path (transfer_payload 0 (transfer_fields rt (heap w a) 0)))
          [address_request rt bip32Path] w (signTransferTx rt bip32Path a w)
        \<and> dispatched_in_order INS_SIGN_TRANSFER_TX
            (prepareChunks rt bip32Path (transfer_payload 1 (transfer_fields rt (heap w a) 0)))
            [address_request rt bip32Path] w (signTransferCreateTx rt bip32Path a w))
   \<and> (checkTransferTxParamsSanity rt (heap w a) = Inr ()
        \<and> recipient_chainId (heap w a) = Some rc
        \<and> \<not> loose_eq rt (chainId (heap w a)) (Some rc) \<longrightarrow>
        dispatched_in_order INS_SIGN_TRANSFER_TX
          (prepareChunks rt bip32Path (transfer_payload 2 (transfer_fields rt (heap w a) rc)))
          [address_request rt bip32Path] w (signTransferCrossChainTx rt bip32Path a w))"
proof (intro conjI impI)
  show "dispatched_in_order INS_SIGN (prepareChunks rt bip32Path blob) [] w
          (sign rt bip32Path blob w)"
    using sign_dispatched [of "prepareChunks rt bip32Path blob" INS_SIGN w rt] assms
    by (simp add: sign_def Let_def)
next
  assume "length (rawHash rt h) = 32"
  then show "dispatched_in_order INS_SIGN_HASH (prepareChunks rt bip32Path (rawHash rt h)) [] w
               (signHash rt bip32Path h w)"
    using sign_dispatched [of "prepareChunks rt bip32Path (rawHash rt h)" INS_SIGN_HASH w rt]
      assms
    by (simp add: signHash_def Let_def)
next
  let ?w0 = "w\<lparr>heap := (heap w)(a := (heap w a)\<lparr>recipient_chainId := Some 0\<rparr>)\<rparr>"
  assume v: "checkTransferTxParamsSanity rt ((heap w a)\<lparr>recipient_chainId := Some 0\<rparr>) = Inr ()"
  then have v0: "checkTransferTxParamsSanity rt (heap ?w0 a) = Inr ()" by simp
  have r0: "recipient_chainId (heap ?w0 a) = Some 0" by simp
  have f: "transfer_fields rt (heap ?w0 a) 0 = transfer_fields rt (heap w a) 0"
    by (simp add: transfer_fields_recipient_chainId)
  show "dispatched_in_order INS_SIGN_TRANSFER_TX
          (prepareChunks rt bip32Path (transfer_payload 0 (transfer_fields rt (heap w a) 0)))
          [address_request rt bip32Path] w (signTransferTx rt bip32Path a w)"
    using signTxInternal_dispatched [OF v0 r0 refl, of bip32Path TRANSFER] assms
    unfolding signTransferTx_world f by (simp add: dispatched_in_order_heap)
  show "dispatched_in_order INS_SIGN_TRANSFER_TX
          (prepareChunks rt bip32Path (transfer_payload 1 (transfer_fields rt (heap w a) 0)))
          [address_request rt bip32Path] w (signTransferCreateTx rt bip32Path a w)"
    using signTxInternal_dispatched [OF v0 r0 refl, of bip32Path TRANSFER_CREATE] assms
    unfolding signTransferTx_world f by (simp add: dispatched_in_order_heap)
next
  assume h: "checkTransferTxParamsSanity rt (heap w a) = Inr ()
             \<and> recipient_chainId (heap w a) = Some rc
             \<and> \<not> loose_eq rt (chainId (heap w a)) (Some rc)"
  then show "dispatched_in_order INS_SIGN_TRANSFER_TX
          (prepareChunks rt bip32Path (transfer_payload 2 (transfer_fields rt (heap w a) rc)))
          [address_request rt bip32Path] w (signTransferCrossChainTx rt bip32Path a w)"
    using signTxInternal_dispatched [of rt w a rc _ bip32Path TRANSFER_CROSS_CHAIN, OF _ _ refl]
      assms
    by (simp add: signTransferCrossChainTx_def)
qed

lemma sample_prepareChunks_not_Nil: "prepareChunks sample_runtime bip32Path blob \<noteq> []"
  by (simp add: sample_runtime_def sample_prepareChunks_def)

lemma slices_300: "slices 250 (replicate 300 0) = [replicate 250 0, replicate 50 0]"
proof -
  have "slices 250 (replicate 300 0) = replicate 250 0 # slices 250 (replicate 50 0)"
    by (subst slices.simps) simp
  then show ?thesis
    by (simp add: slices_one)
qed

lemma rejected_sign_run:
  "sign (sample_runtime\<lparr>collaborator := rejecting_device\<rparr>) sample_path (replicate 300 0)
     sample_world =
     (Inl (ResponseError (TransportError 0x6986)),
      \<lparr>heap = (\<lambda>a. sample_params), device = 2,
       exchanges =
         [(SignSendChunk INS_SIGN 1 3 (Some (Buffer_from sample_path)), Inr []),
          (SignSendChunk INS_SIGN 2 3 (Some (replicate 250 0)), Inl (TransportError 0x6986))]\<rparr>)"
  by (simp add: sign_def sendChunks_def signSendChunk_def exchange_def sample_runtime_def
      sample_prepareChunks_def slices_300 chunk_loop.simps sample_world_def)

theorem chunks_dispatched_in_order_witness:
  "(\<forall>blob. prepareChunks sample_runtime sample_path blob \<noteq> [])
   \<and> dispatched_in_order INS_SIGN (prepareChunks sample_runtime sample_path [1, 2, 3]) []
        sample_world (sign sample_runtime sample_path [1, 2, 3] sample_world)
   \<and> length (rawHash sample_runtime (HashBytes (replicate 32 1))) = 32
   \<and> dispatched_in_order INS_SIGN_HASH
        (prepareChunks sample_runtime sample_path (replicate 32 1)) [] sample_world
        (signHash sample_runtime sample_path (HashBytes (replicate 32 1)) sample_world)
   \<and> checkTransferTxParamsSanity sample_runtime
        ((heap sample_world 0)\<lparr>recipient_chainId := Some 0\<rparr>) = Inr ()
   \<and> dispatched_in_order INS_SIGN_TRANSFER_TX
        (prepareChunks sample_runtime sample_path sample_payload)
        [address_request sample_runtime sample_path] sample_world
        (signTransferTx sample_runtime sample_path 0 sample_world)
   \<and> checkTransferTxParamsSanity sample_runtime
        (sample_params\<lparr>recipient_chainId := Some 1\<rparr>) = Inr ()
   \<and> \<not> loose_eq sample_runtime (chainId (sample_params\<lparr>recipient_chainId := Some 1\<rparr>)) (Some 1)
   \<and> dispatched_in_order INS_SIGN_TRANSFER_TX
        (prepareChunks sample_runtime sample_path
           (transfer_payload 2
              (transfer_fields sample_runtime (sample_params\<lparr>recipient_chainId := Some 1\<rparr>) 1)))
        [address_request sample_runtime sample_path]
        \<lparr>heap = (\<lambda>a. sample_params\<lparr>recipient_chainId := Some 1\<rparr>), device = 0, exchanges = []\<rparr>
        (signTransferCrossChainTx sample_runtime sample_path 0
           \<lparr>heap = (\<lambda>a. sample_params\<lparr>recipient_chainId := Some 1\<rparr>), device = 0,
            exchanges = []\<rparr>)
   \<and> (\<forall>blob. prepareChunks (sample_runtime\<lparr>collaborator := rejecting_device\<rparr>) sample_path blob
         \<noteq> [])
   \<and> dispatched_in_order INS_SIGN
        [Buffer_from sample_path, replicate 250 0, replicate 50 0] [] sample_world
        (Inl (ResponseError (TransportError 0x6986)) :: thrown + ResponseSign,
         \<lparr>heap = (\<lambda>a. sample_params), device = 2,
          exchanges =
            [(SignSendChunk INS_SIGN 1 3 (Some (Buffer_from sample_path)), Inr []),
             (SignSendChunk INS_SIGN 2 3 (Some (replicate 250 0)),
              Inl (TransportError 0x6986))]\<rparr>)"
proof -
  have n: "\<forall>blob. prepareChunks sample_runtime sample_path blob \<noteq> []"
    using sample_prepareChunks_not_Nil by simp
  have n': "\<forall>blob. prepareChunks (sample_runtime\<lparr>collaborator := rejecting_device\<rparr>)
                    sample_path blob \<noteq> []"
    by (simp add: sample_runtime_def sample_prepareChunks_def)
  have v: "checkTransferTxParamsSanity sample_runtime
             ((heap sample_world 0)\<lparr>recipient_chainId := Some 0\<rparr>) = Inr ()"
    using sample_params_valid [of "Some 0"] by (simp add: sample_world_def)
  have f: "transfer_payload 0 (transfer_fields sample_runtime (heap sample_world 0) 0)
             = sample_payload"
    using sample_fields
    by (simp add: sample_world_def sample_payload_def transfer_fields_recipient_chainId)
  have c: "prepareChunks (sample_runtime\<lparr>collaborator := rejecting_device\<rparr>) sample_path
             (replicate 300 0) = [Buffer_from sample_path, replicate 250 0, replicate 50 0]"
    by (simp add: sample_runtime_def sample_prepareChunks_def slices_300)
  have h: "rawHash sample_runtime (HashBytes (replicate 32 1)) = replicate 32 1"
    by (simp add: rawHash_def)
  have l: "\<not> loose_eq sample_runtime (chainId (sample_params\<lparr>recipient_chainId := Some 1\<rparr>))
             (Some 1)"
    by (simp add: sample_params_def)
  show ?thesis
    using n n' v h l sample_cross_chain_valid
      chunks_dispatched_in_order [OF n, of "[1, 2, 3]" sample_world
        "HashBytes (replicate 32 1)" 0 0]
      chunks_dispatched_in_order [OF n, of "[1, 2, 3]"
        "\<lparr>heap = (\<lambda>a. sample_params\<lparr>recipient_chainId := Some 1\<rparr>), device = 0,
          exchanges = []\<rparr>" "HashBytes (replicate 32 1)" 0 1]
      chunks_dispatched_in_order [OF n', of "replicate 300 0" sample_world
        "HashBytes (replicate 32 1)" 0 0]
    unfolding f c rejected_sign_run
    by simp
qed

text \<open>
  C6, as stated, fails: \<open>signTransferTx\<close> writes \<open>recipient_chainId = 0\<close> into the object of
  the caller. Here the object has the recipient chain id 5 before the call and 0 after it.
\<close>

theorem params_unchanged_counterexample:
  "recipient_chainId (heap reused_world 0) = Some 5
   \<and> recipient_chainId
       (heap (snd (signTransferTx sample_runtime sample_path 0 reused_world)) 0) = Some 0
   \<and> heap (snd (signTransferTx sample_runtime sample_path 0 reused_world)) 0
       \<noteq> heap reused_world 0"
proof -
  have a: "recipient_chainId
             (heap (snd (signTransferTx sample_runtime sample_path 0 reused_world)) 0) = Some 0"
    by (simp add: signTransferTx_world signTxInternal_heap)
  have b: "recipient_chainId (heap reused_world 0) = Some 5"
    by (simp add: reused_world_def)
  from a b have "heap (snd (signTransferTx sample_runtime sample_path 0 reused_world)) 0
                   \<noteq> heap reused_world 0"
    by auto
  with a b show ?thesis by simp
qed

text \<open>
  C6, amended: \<open>signTransferCrossChainTx\<close> leaves every object of the caller as it was;
  \<open>signTransferTx\<close> and \<open>signTransferCreateTx\<close> leave every field of the parameter object as it
  was except \<open>recipient_chainId\<close>, which they set to 0, and leave every other object as it
  was. The validation has no effect at all: in this embedding it is a function of the
  runtime and of the parameters, with no world to change.
\<close>

theorem params_frame:
  "heap (snd (signTransferCrossChainTx rt bip32Path a w)) = heap w
   \<and> heap (snd (signTransferTx rt bip32Path a w))
       = (heap w)(a := (heap w a)\<lparr>recipient_chainId := Some 0\<rparr>)
   \<and> heap (snd (signTransferCreateTx rt bip32Path a w))
       = (heap w)(a := (heap w a)\<lparr>recipient_chainId := Some 0\<rparr>)"
  by (simp add: signTransferTx_world signTxInternal_heap signTransferCrossChainTx_def)

theorem params_frame_witness:
  "heap (snd (signTransferTx sample_runtime sample_path 0 sample_world)) 0
     = sample_params\<lparr>recipient_chainId := Some 0\<rparr>
   \<and> heap (snd (signTransferTx sample_runtime sample_path 0 sample_world)) 1 = sample_params
   \<and> heap (snd (signTransferCrossChainTx sample_runtime sample_path 0 sample_world))
       = heap sample_world"
  using params_frame [of sample_runtime sample_path 0 sample_world]
  by (simp add: sample_world_def)

section \<open>The claim about the layout of the payload\<close>

lemma textPayload_ascii_unit: "is_ascii txt \<Longrightarrow> textPayload txt = length_prefixed_unit txt"
  by (simp add: textPayload_ascii Buffer_from_ascii length_prefixed_unit_def)

lemma is_ascii_js_digits:
  "is_ascii (replicate n 0x61)" "is_ascii (js ''0'')" "is_ascii (js ''testnet'')"
  "is_ascii (js ''10.0'')" "is_ascii []" "is_ascii (js ''1.0e-6'')" "is_ascii (js ''2300'')"
  "is_ascii (js ''1700000000'')" "is_ascii (js ''600'')"
  by (simp_all add: is_ascii_def js_def list_all_iff)

lemma textPayload_e_acute: "textPayload [0xE9] = [1, 0]"
  by (simp add: textPayload_def Buffer_write_def utf8_unit_def utf8_code_point_def
      is_high_surrogate_def is_low_surrogate_def)

lemma length_prefixed_unit_e_acute: "length_prefixed_unit [0xE9] = [2, 0xC3, 0xA9]"
  by (simp add: length_prefixed_unit_def Buffer_from_def utf8_unit_def utf8_code_point_def
      is_high_surrogate_def is_low_surrogate_def)

lemma accented_params_valid:
  "checkTransferTxParamsSanity sample_runtime
     (sample_params\<lparr>nonce := Some [0xE9], recipient_chainId := Some 0\<rparr>) = Inr ()"
proof -
  have r: "strip_k (recipient (sample_params\<lparr>nonce := Some [0xE9], recipient_chainId := Some 0\<rparr>))
             = replicate 64 0x61"
    using sample_recipient by simp
  have m: "match_hex_run 64 (replicate 64 0x61)"
    using sample_is_hex64 by (simp add: is_hex64_def match_hex_run_exact)
  have t: "length (Number_toString 1700000000) = 10"
    by (simp add: Number_toString_def nat_toString.simps)
  show ?thesis
    unfolding checkTransferTxParamsSanity_def r
    by (simp add: m sample_number_10 t sample_params_def sample_runtime_def maxLengths_def
        property_def length_js)
qed

lemma accented_fields:
  "transfer_fields sample_runtime
     (sample_params\<lparr>nonce := Some [0xE9], recipient_chainId := Some 0\<rparr>) 0 =
     [replicate 64 0x61, js ''0'', js ''testnet'', js ''10.0'', [], [], js ''1.0e-6'',
      js ''2300'', js ''1700000000'', js ''0'', [0xE9], js ''600'']"
  using sample_recipient
  by (simp add: transfer_fields_def sample_convertDecimal Number_toString_0
      Number_toString_sample sample_params_def)

lemma accented_payload_assembled:
  "transfer_payload 0
     [replicate 64 0x61, js ''0'', js ''testnet'', js ''10.0'', [], [], js ''1.0e-6'',
      js ''2300'', js ''1700000000'', js ''0'', [0xE9], js ''600'']
     = accented_payload"
  by (simp add: transfer_payload_def accented_payload_def textPayload_e_acute
      textPayload_ascii_unit is_ascii_js_digits)

lemma accented_payload_length: "length accented_payload = 114"
  unfolding accented_payload_assembled [symmetric]
  by (simp add: transfer_payload_def length_textPayload length_js)

lemma accented_chunks:
  "prepareChunks sample_runtime sample_path accented_payload
     = [Buffer_from sample_path, accented_payload]"
proof -
  have "accented_payload \<noteq> []" "length accented_payload \<le> 250"
    using accented_payload_length by auto
  then show ?thesis
    by (simp add: sample_runtime_def sample_prepareChunks_def slices_one)
qed

lemma accented_transfer_exchanges:
  "exchanges (snd (signTransferTx sample_runtime sample_path 0 accented_world)) =
     [(SignSendChunk INS_SIGN_TRANSFER_TX 1 2 (Some (Buffer_from sample_path)), Inr []),
      (SignSendChunk INS_SIGN_TRANSFER_TX 2 2 (Some accented_payload), Inr sample_signature),
      (address_request sample_runtime sample_path,
       Inr (sample_pubkey @ [0x6B, 0x3A, 0x31, 0x31]))]"
proof -
  let ?p = "sample_params\<lparr>nonce := Some [0xE9], recipient_chainId := Some 0\<rparr>"
  let ?h = "(\<lambda>a. sample_params\<lparr>nonce := Some [0xE9]\<rparr>)(0 := ?p)"
  let ?w0 = "\<lparr>heap = ?h, device = 0::nat, exchanges = []\<rparr>"
  have v: "checkTransferTxParamsSanity sample_runtime (heap ?w0 0) = Inr ()"
    using accented_params_valid by simp
  have rc: "recipient_chainId (heap ?w0 0) = Some 0" by simp
  have p: "transfer_payload (tx_number TRANSFER) (transfer_fields sample_runtime (heap ?w0 0) 0)
             = accented_payload"
    using accented_fields accented_payload_assembled by simp
  have "signTransferTx sample_runtime sample_path 0 accented_world
          = signTxInternal sample_runtime sample_path 0 TRANSFER ?w0"
    by (simp add: signTransferTx_def accented_world_def Let_def)
  then show ?thesis
    unfolding signTxInternal_unfold [OF v rc] p accented_chunks sample_sendChunks
    by (simp add: sample_getAddress split: sum.splits)
qed

text \<open>
  C3, at the sample request with the nonce \<open>U+00E9\<close>, signed as a plain transfer: the
  request passes the validation, its twelve fields are as listed, and the payload sent as
  the second chunk is not the payload of the specification, the tag followed by the
  length-prefixed fields: for the nonce the bytes 1, 0 are sent, and its length-prefixed
  unit is 2, 0xC3, 0xA9.
\<close>

theorem transfer_payload_not_length_prefixed:
  "checkTransferTxParamsSanity sample_runtime
     ((heap accented_world 0)\<lparr>recipient_chainId := Some 0\<rparr>) = Inr ()
   \<and> transfer_fields sample_runtime (heap accented_world 0) 0 =
       [replicate 64 0x61, js ''0'', js ''testnet'', js ''10.0'', [], [], js ''1.0e-6'',
        js ''2300'', js ''1700000000'', js ''0'', [0xE9], js ''600'']
   \<and> map fst (exchanges (snd (signTransferTx sample_runtime sample_path 0 accented_world)))
       = [SignSendChunk INS_SIGN_TRANSFER_TX 1 2 (Some (Buffer_from sample_path)),
          SignSendChunk INS_SIGN_TRANSFER_TX 2 2 (Some accented_payload),
          address_request sample_runtime sample_path]
   \<and> accented_payload
       \<noteq> specified_payload 0 (transfer_fields sample_runtime (heap accented_world 0) 0)
   \<and> textPayload [0xE9] = [1, 0]
   \<and> length_prefixed_unit [0xE9] = [2, 0xC3, 0xA9]"
proof -
  have v: "checkTransferTxParamsSanity sample_runtime
             ((heap accented_world 0)\<lparr>recipient_chainId := Some 0\<rparr>) = Inr ()"
    using accented_params_valid by (simp add: accented_world_def)
  have f: "transfer_fields sample_runtime (heap accented_world 0) 0 =
             [replicate 64 0x61, js ''0'', js ''testnet'', js ''10.0'', [], [], js ''1.0e-6'',
              js ''2300'', js ''1700000000'', js ''0'', [0xE9], js ''600'']"
    using accented_fields
    by (simp add: accented_world_def transfer_fields_recipient_chainId)
  have d: "accented_payload
             \<noteq> specified_payload 0 (transfer_fields sample_runtime (heap accented_world 0) 0)"
    unfolding f
    by (simp add: accented_payload_def specified_payload_def length_prefixed_unit_e_acute)
  show ?thesis
    using v f d
    by (simp add: accented_transfer_exchanges textPayload_e_acute length_prefixed_unit_e_acute)
qed

end
